theory Spec2Isabelle
  imports Complex_Main
begin

section \<open>JavaScript values used by the coconut risk calculator\<close>

text \<open>
  The program is a React component in two versions kept in \<^verbatim>\<open>src/App.jsx\<close>: the first
  scores with a linear wind term and a random jitter (\<^verbatim>\<open>coconutProbability\<close>), the second
  with a power law and weather multipliers (\<^verbatim>\<open>calculateDanger\<close>).

  A finite JavaScript number is modelled as a real, the non-finite numbers \<^verbatim>\<open>NaN\<close>,
  \<^verbatim>\<open>Infinity\<close> and \<^verbatim>\<open>-Infinity\<close> are constructors of their own. An arithmetic operation on
  doubles returns its exact result rounded to the nearest double. Of that rounding the
  model keeps the overflow: an exact result of magnitude \<open>2^1024 - 2^970\<close> or more (half
  an ulp above the largest double) becomes an infinity. The rounding of smaller results
  to 53 bits, underflow and the sign of zero are outside the model. Rounding never
  reverses the order of two results and never leaves an interval whose ends are doubles.
\<close>

datatype number = NaN | PosInfinity | NegInfinity | Num real

definition overflow_threshold :: real where
  "overflow_threshold = 2 ^ 1024 - 2 ^ 970"

definition overflow :: "real \<Rightarrow> number" where
  "overflow x =
     (if overflow_threshold \<le> x then PosInfinity
      else if x \<le> - overflow_threshold then NegInfinity
      else Num x)"

definition isNaN :: "number \<Rightarrow> bool" where
  "isNaN n = (n = NaN)"

definition isFinite :: "number \<Rightarrow> bool" where
  "isFinite n = (case n of Num _ \<Rightarrow> True | _ \<Rightarrow> False)"

text \<open>
  The arithmetic operators and the comparison \<^verbatim>\<open><\<close> on numbers, with the IEEE rules for
  the special values: \<^verbatim>\<open>NaN\<close> is absorbing and compares false with everything.
\<close>

instantiation number :: "{plus, times, inverse, ord}"
begin

fun plus_number :: "number \<Rightarrow> number \<Rightarrow> number" where
  "plus_number NaN _ = NaN"
| "plus_number _ NaN = NaN"
| "plus_number (Num a) (Num b) = overflow (a + b)"
| "plus_number PosInfinity NegInfinity = NaN"
| "plus_number NegInfinity PosInfinity = NaN"
| "plus_number PosInfinity _ = PosInfinity"
| "plus_number NegInfinity _ = NegInfinity"
| "plus_number _ PosInfinity = PosInfinity"
| "plus_number _ NegInfinity = NegInfinity"

fun times_number :: "number \<Rightarrow> number \<Rightarrow> number" where
  "times_number NaN _ = NaN"
| "times_number _ NaN = NaN"
| "times_number (Num a) (Num b) = overflow (a * b)"
| "times_number (Num a) PosInfinity = (if a = 0 then NaN else if 0 < a then PosInfinity else NegInfinity)"
| "times_number (Num a) NegInfinity = (if a = 0 then NaN else if 0 < a then NegInfinity else PosInfinity)"
| "times_number PosInfinity (Num b) = (if b = 0 then NaN else if 0 < b then PosInfinity else NegInfinity)"
| "times_number NegInfinity (Num b) = (if b = 0 then NaN else if 0 < b then NegInfinity else PosInfinity)"
| "times_number PosInfinity PosInfinity = PosInfinity"
| "times_number NegInfinity NegInfinity = PosInfinity"
| "times_number PosInfinity NegInfinity = NegInfinity"
| "times_number NegInfinity PosInfinity = NegInfinity"

fun divide_number :: "number \<Rightarrow> number \<Rightarrow> number" where
  "divide_number NaN _ = NaN"
| "divide_number _ NaN = NaN"
| "divide_number (Num a) (Num b) =
     (if b = 0 then (if a = 0 then NaN else if 0 < a then PosInfinity else NegInfinity)
      else overflow (a / b))"
| "divide_number (Num a) _ = Num 0"
| "divide_number PosInfinity (Num b) = (if 0 \<le> b then PosInfinity else NegInfinity)"
| "divide_number NegInfinity (Num b) = (if 0 \<le> b then NegInfinity else PosInfinity)"
| "divide_number _ _ = NaN"

fun inverse_number :: "number \<Rightarrow> number" where
  "inverse_number NaN = NaN"
| "inverse_number (Num a) = (if a = 0 then PosInfinity else overflow (1 / a))"
| "inverse_number _ = Num 0"

fun less_number :: "number \<Rightarrow> number \<Rightarrow> bool" where
  "less_number NaN _ = False"
| "less_number _ NaN = False"
| "less_number (Num a) (Num b) = (a < b)"
| "less_number _ NegInfinity = False"
| "less_number NegInfinity _ = True"
| "less_number PosInfinity _ = False"
| "less_number _ PosInfinity = True"

fun less_eq_number :: "number \<Rightarrow> number \<Rightarrow> bool" where
  "less_eq_number NaN _ = False"
| "less_eq_number _ NaN = False"
| "less_eq_number (Num a) (Num b) = (a \<le> b)"
| "less_eq_number NegInfinity _ = True"
| "less_eq_number _ PosInfinity = True"
| "less_eq_number _ NegInfinity = False"
| "less_eq_number PosInfinity _ = False"

instance ..

end

text \<open>\<^verbatim>\<open>a || b\<close> for a number \<open>a\<close>: \<open>a\<close> when it is truthy (neither \<^verbatim>\<open>NaN\<close> nor zero), else \<open>b\<close>.\<close>

definition truthy :: "number \<Rightarrow> bool" where
  "truthy n = (n \<noteq> NaN \<and> n \<noteq> Num 0)"

definition number_or :: "number \<Rightarrow> number \<Rightarrow> number" where
  "number_or a b = (if truthy a then a else b)"

text \<open>\<^verbatim>\<open>Math.min(a, b)\<close>: \<^verbatim>\<open>NaN\<close> if either argument is.\<close>

fun Math_min :: "number \<Rightarrow> number \<Rightarrow> number" where
  "Math_min NaN _ = NaN"
| "Math_min _ NaN = NaN"
| "Math_min NegInfinity _ = NegInfinity"
| "Math_min _ NegInfinity = NegInfinity"
| "Math_min PosInfinity b = b"
| "Math_min a PosInfinity = a"
| "Math_min (Num a) (Num b) = Num (min a b)"

text \<open>
  \<^verbatim>\<open>Math.pow(x, y)\<close> for a finite exponent \<open>y\<close> (the code's is the literal 1.5). Any base
  to the power 0 is 1; a negative finite base with a fractional exponent has no real
  power and gives \<^verbatim>\<open>NaN\<close>; a zero base with a negative exponent gives \<^verbatim>\<open>Infinity\<close>.
  The language leaves the precision of the result to the implementation; here it is the
  exact power, overflowing as the arithmetic does.
\<close>

definition odd_integer :: "real \<Rightarrow> bool" where
  "odd_integer y = (y \<in> \<int> \<and> odd \<lfloor>y\<rfloor>)"

definition Math_pow :: "number \<Rightarrow> real \<Rightarrow> number" where
  "Math_pow b y =
     (if y = 0 then Num 1
      else case b of
        NaN \<Rightarrow> NaN
      | PosInfinity \<Rightarrow> (if 0 < y then PosInfinity else Num 0)
      | NegInfinity \<Rightarrow> (if 0 < y then (if odd_integer y then NegInfinity else PosInfinity) else Num 0)
      | Num x \<Rightarrow>
          (if 0 < x then overflow (x powr y)
           else if x = 0 then (if 0 < y then Num 0 else PosInfinity)
           else if y \<in> \<int> then overflow ((if odd \<lfloor>y\<rfloor> then - 1 else 1) * ((- x) powr y))
           else NaN))"

subsection \<open>Strings made from numbers\<close>

text \<open>
  \<^verbatim>\<open>x.toFixed(1)\<close> returns a string. For a finite \<open>x\<close> of magnitude below \<open>10^21\<close> it is
  an optional minus sign (present when \<open>x < 0\<close>, also when the digits are all zero), then
  the decimal digits of the integer \<open>n\<close> for which \<open>n / 10\<close> is nearest to \<open>\<bar>x\<bar>\<close>, the
  larger \<open>n\<close> on a tie, with a point before the last digit. That string is recorded as
  \<open>Fixed1 neg n\<close>. Otherwise \<^verbatim>\<open>toFixed\<close> returns what \<^verbatim>\<open>String(x)\<close> returns
  (\<^verbatim>\<open>"NaN"\<close>, \<^verbatim>\<open>"Infinity"\<close>, an exponent form), recorded as \<open>NumberToString x\<close>.
\<close>

datatype numstr = NumberToString number | Fixed1 bool nat

definition toFixed1 :: "number \<Rightarrow> numstr" where
  "toFixed1 v =
     (case v of
        Num x \<Rightarrow>
          (let neg = (x < 0); a = (if x < 0 then - x else x)
           in if 10 ^ 21 \<le> a then NumberToString (Num x)
              else Fixed1 neg (nat \<lfloor>a * 10 + 1 / 2\<rfloor>))
      | _ \<Rightarrow> NumberToString v)"

text \<open>The characters of a \<open>Fixed1\<close> string.\<close>

definition digit_char :: "nat \<Rightarrow> char" where
  "digit_char d = char_of (of_char CHR ''0'' + d)"

fun digits_of :: "nat \<Rightarrow> string" where
  "digits_of n = (if n < 10 then [digit_char n] else digits_of (n div 10) @ [digit_char (n mod 10)])"

declare digits_of.simps [simp del]

definition fixed1_text :: "bool \<Rightarrow> nat \<Rightarrow> string" where
  "fixed1_text neg n =
     (if neg then ''-'' else '''') @ digits_of (n div 10) @ ''.'' @ [digit_char (n mod 10)]"

text \<open>
  \<^verbatim>\<open>Number(s)\<close> for such a string \<open>s\<close>, which is what the comparison \<^verbatim>\<open>s > 70\<close> of a string
  with a number applies to \<open>s\<close>: the number the string denotes.
\<close>

fun ToNumber :: "numstr \<Rightarrow> number" where
  "ToNumber (NumberToString v) = v"
| "ToNumber (Fixed1 neg n) = Num ((if neg then - 1 else 1) * (real n / 10))"

text \<open>The finite value of a computed probability, when it has one.\<close>

definition probabilityPercent :: "numstr option \<Rightarrow> real option" where
  "probabilityPercent p =
     (case p of
        None \<Rightarrow> None
      | Some s \<Rightarrow> (case ToNumber s of Num x \<Rightarrow> Some x | _ \<Rightarrow> None))"

subsection \<open>Numbers read from strings\<close>

text \<open>
  Strings are lists of 8-bit characters, so of JavaScript's white space only the
  characters up to U+00FF appear here.
\<close>

definition isWhiteSpace :: "char \<Rightarrow> bool" where
  "isWhiteSpace c = (c \<in> set [CHR 0x09, CHR 0x0A, CHR 0x0B, CHR 0x0C, CHR 0x0D, CHR 0x20, CHR 0xA0])"

definition isDigit :: "char \<Rightarrow> bool" where
  "isDigit c = (c \<in> set ''0123456789'')"

definition isHexDigit :: "char \<Rightarrow> bool" where
  "isHexDigit c = (c \<in> set ''0123456789abcdefABCDEF'')"

definition digitValue :: "char \<Rightarrow> nat" where
  "digitValue c =
     (if c \<in> set ''abcdef'' then of_char c - 87
      else if c \<in> set ''ABCDEF'' then of_char c - 55
      else of_char c - 48)"

definition radixValue :: "nat \<Rightarrow> string \<Rightarrow> nat" where
  "radixValue r ds = foldl (\<lambda>a c. a * r + digitValue c) 0 ds"

text \<open>
  \<^verbatim>\<open>parseInt(s)\<close> with no radix: leading white space, a sign, an optional \<^verbatim>\<open>0x\<close> prefix,
  then the longest run of digits; \<^verbatim>\<open>NaN\<close> when that run is empty.
\<close>

definition parseInt :: "string \<Rightarrow> number" where
  "parseInt s =
     (let t = dropWhile isWhiteSpace s;
          neg = (take 1 t = ''-'');
          u = (if take 1 t = ''+'' \<or> take 1 t = ''-'' then drop 1 t else t);
          hex = (take 2 u = ''0x'' \<or> take 2 u = ''0X'');
          z = (if hex then takeWhile isHexDigit (drop 2 u) else takeWhile isDigit u)
      in if z = [] then NaN
         else overflow ((if neg then - 1 else 1) * real (radixValue (if hex then 16 else 10) z)))"

text \<open>
  \<^verbatim>\<open>parseFloat(s)\<close>: leading white space, then the longest prefix that is a decimal
  literal: a sign, then either \<^verbatim>\<open>Infinity\<close> or digits with an optional fraction and an
  optional exponent; \<^verbatim>\<open>NaN\<close> when there is no such prefix.
\<close>

definition exponentPart :: "string \<Rightarrow> int" where
  "exponentPart r =
     (if take 1 r = ''e'' \<or> take 1 r = ''E'' then
        (let r' = drop 1 r;
             eneg = (take 1 r' = ''-'');
             ds = takeWhile isDigit (if take 1 r' = ''+'' \<or> take 1 r' = ''-'' then drop 1 r' else r')
         in if ds = [] then 0 else (if eneg then - 1 else 1) * int (radixValue 10 ds))
      else 0)"

definition parseFloat :: "string \<Rightarrow> number" where
  "parseFloat s =
     (let t = dropWhile isWhiteSpace s;
          neg = (take 1 t = ''-'');
          u = (if take 1 t = ''+'' \<or> take 1 t = ''-'' then drop 1 t else t)
      in if take 8 u = ''Infinity'' then (if neg then NegInfinity else PosInfinity)
         else
           (let ip = takeWhile isDigit u;
                r1 = dropWhile isDigit u;
                fp = (if take 1 r1 = ''.'' then takeWhile isDigit (drop 1 r1) else []);
                r2 = (if take 1 r1 = ''.'' then dropWhile isDigit (drop 1 r1) else r1)
            in if ip = [] \<and> fp = [] then NaN
               else overflow ((if neg then - 1 else 1) * real (radixValue 10 (ip @ fp))
                         * 10 powi (exponentPart r2 - int (length fp)))))"

subsection \<open>Answers of the external services\<close>

text \<open>
  \<^verbatim>\<open>await fetch(url)\<close> followed by \<^verbatim>\<open>await res.json()\<close> either throws or yields the parsed
  body. Of a body only the fields that the code reads are kept; an absent field or
  object is \<open>None\<close>.
\<close>

datatype 'a response = Rejected | Json 'a

record 'e tree_json =
  elements :: "'e list option"

text \<open>\<^verbatim>\<open>treeJson.elements?.length || 5\<close>\<close>

definition elements_length_or_5 :: "'e tree_json \<Rightarrow> number" where
  "elements_length_or_5 treeJson =
     (case elements treeJson of
        None \<Rightarrow> Num 5
      | Some es \<Rightarrow> number_or (Num (real (length es))) (Num 5))"

section \<open>The linear-wind version\<close>

text \<open>
  The component state of the first version (\<^verbatim>\<open>useState\<close> hooks). \<open>None\<close> is \<^verbatim>\<open>null\<close>.
  A wind-history entry is \<open>None\<close> when the sample read was \<^verbatim>\<open>undefined\<close>.
\<close>

record state1 =
  coords :: "(number \<times> number) option"
  windSpeed :: "number option"
  treeDensity :: "number option"
  timeExposure :: number
  manualLat :: string
  manualLon :: string
  useManual :: bool
  isLoading :: bool
  windHistory :: "number option list"

definition init1 :: state1 where
  "init1 = \<lparr> coords = None, windSpeed = None, treeDensity = None, timeExposure = Num 30,
             manualLat = '''', manualLon = '''', useManual = False, isLoading = False,
             windHistory = [] \<rparr>"

text \<open>
  \<^verbatim>\<open>coconutProbability\<close>. The first argument is the value that \<^verbatim>\<open>Math.random()\<close> returns
  in this evaluation, a number in \<open>[0, 1)\<close>; it is drawn only when both inputs are present.
\<close>

definition coconutProbability :: "real \<Rightarrow> state1 \<Rightarrow> numstr option" where
  "coconutProbability random st =
     (case (windSpeed st, treeDensity st) of
        (Some w, Some d) \<Rightarrow>
          Some (toFixed1 (Math_min (Num 100)
                  ((Num 10 + w * Num 2 + Num random * Num 5) * Num 5 * (d / Num 20)
                     * (timeExposure st / Num 1440))))
      | _ \<Rightarrow> None)"

text \<open>An evaluation of \<^verbatim>\<open>coconutProbability\<close> draws some \<open>random\<close> in \<open>[0, 1)\<close>.\<close>

inductive coconutProbability_run :: "state1 \<Rightarrow> real \<Rightarrow> numstr option \<Rightarrow> bool" where
  draw: "0 \<le> random \<Longrightarrow> random < 1 \<Longrightarrow>
         coconutProbability_run st random (coconutProbability random st)"

text \<open>
  \<^verbatim>\<open>dangerLevel\<close>. The outer test is the truthiness of \<^verbatim>\<open>coconutProbability\<close>: \<^verbatim>\<open>null\<close> is
  falsy, and a string from \<^verbatim>\<open>toFixed\<close> is never empty, hence truthy (also \<^verbatim>\<open>"0.0"\<close>).
\<close>

definition dangerLevel :: "numstr option \<Rightarrow> string" where
  "dangerLevel p =
     (case p of
        Some s \<Rightarrow>
          (if Num 70 < ToNumber s then ''danger''
           else if Num 40 < ToNumber s then ''warning''
           else ''safe'')
      | None \<Rightarrow> '''')"

text \<open>The two number fields of the form: \<^verbatim>\<open>parseInt(e.target.value) || 5\<close> and \<^verbatim>\<open>|| 0\<close>.\<close>

definition onChange_treeCount :: "string \<Rightarrow> state1 \<Rightarrow> state1" where
  "onChange_treeCount v st = st\<lparr>treeDensity := Some (number_or (parseInt v) (Num 5))\<rparr>"

definition onChange_minutes :: "string \<Rightarrow> state1 \<Rightarrow> state1" where
  "onChange_minutes v st = st\<lparr>timeExposure := number_or (parseInt v) (Num 0)\<rparr>"

subsection \<open>Fetching\<close>

record hourly_json =
  time :: "string list option"
  wind_speed_10m :: "number list option"

record weather_json1 =
  current_weather :: "number option"
  hourly :: "hourly_json option"

definition endsWith :: "string \<Rightarrow> string \<Rightarrow> bool" where
  "endsWith s t = (length t \<le> length s \<and> drop (length s - length t) s = t)"

text \<open>\<^verbatim>\<open>xs[i]\<close>: \<^verbatim>\<open>undefined\<close> beyond the end of the array.\<close>

definition at_index :: "'a list \<Rightarrow> nat \<Rightarrow> 'a option" where
  "at_index xs i = (if i < length xs then Some (xs ! i) else None)"

text \<open>The \<^verbatim>\<open>for\<close> loop that collects the samples whose time stamp ends in \<^verbatim>\<open>12:00\<close>.\<close>

function dailySpeeds_loop :: "string list \<Rightarrow> number list \<Rightarrow> nat \<Rightarrow> number option list \<Rightarrow> number option list" where
  "dailySpeeds_loop hours speeds i dailySpeeds =
     (if i < length hours
      then dailySpeeds_loop hours speeds (i + 1)
             (if endsWith (hours ! i) ''12:00'' then dailySpeeds @ [at_index speeds i] else dailySpeeds)
      else dailySpeeds)"
  by pat_completeness auto
termination
  by (relation "measure (\<lambda>(hours, speeds, i, dailySpeeds). length hours - i)") auto

declare dailySpeeds_loop.simps [simp del]

text \<open>\<^verbatim>\<open>xs.slice(-5)\<close>: the last five elements, or all when there are fewer.\<close>

definition slice_last5 :: "'a list \<Rightarrow> 'a list" where
  "slice_last5 xs = drop (length xs - 5) xs"

text \<open>
  The body of the \<^verbatim>\<open>try\<close> block of \<^verbatim>\<open>fetchData\<close>. \<open>Inl\<close> is a thrown exception, with the
  state updates made before it; they are kept, as React has them queued already.
  Reading \<^verbatim>\<open>hours.length\<close> throws when \<^verbatim>\<open>data.hourly.time\<close> is absent.
\<close>

definition fetchData1_try :: "number \<Rightarrow> number \<Rightarrow> weather_json1 response \<Rightarrow> 'e tree_json response
    \<Rightarrow> state1 \<Rightarrow> state1 + state1" where
  "fetchData1_try lat lon weather tree st =
     (let st1 = st\<lparr>coords := Some (lat, lon)\<rparr>
      in case weather of
           Rejected \<Rightarrow> Inl st1
         | Json data \<Rightarrow>
             (let st2 = (case current_weather data of
                           Some windspeed \<Rightarrow> st1\<lparr>windSpeed := Some windspeed\<rparr>
                         | None \<Rightarrow> st1);
                  history =
                    (case hourly data of
                       None \<Rightarrow> Inr st2
                     | Some h \<Rightarrow>
                         (case wind_speed_10m h of
                            None \<Rightarrow> Inr st2
                          | Some speeds \<Rightarrow>
                              (case time h of
                                 None \<Rightarrow> Inl st2
                               | Some hours \<Rightarrow>
                                   Inr (st2\<lparr>windHistory :=
                                          slice_last5 (dailySpeeds_loop hours speeds 0 [])\<rparr>))))
              in case history of
                   Inl st3 \<Rightarrow> Inl st3
                 | Inr st3 \<Rightarrow>
                     (case tree of
                        Rejected \<Rightarrow> Inl st3
                      | Json treeJson \<Rightarrow>
                          Inr (st3\<lparr>treeDensity := Some (elements_length_or_5 treeJson)\<rparr>))))"

text \<open>
  \<^verbatim>\<open>fetchData\<close> of the first version, from the call to the end of its \<^verbatim>\<open>finally\<close> block,
  given what the two services answer. The tree service is asked only if nothing threw
  before.
\<close>

definition fetchData1 :: "number \<Rightarrow> number \<Rightarrow> weather_json1 response \<Rightarrow> 'e tree_json response
    \<Rightarrow> state1 \<Rightarrow> state1" where
  "fetchData1 lat lon weather tree st =
     (case fetchData1_try lat lon weather tree (st\<lparr>isLoading := True\<rparr>) of
        Inl st' \<Rightarrow> st'\<lparr>treeDensity := Some (Num 5), isLoading := False\<rparr>
      | Inr st' \<Rightarrow> st'\<lparr>isLoading := False\<rparr>)"

text \<open>\<^verbatim>\<open>handleManualSubmit\<close>: the guard is \<^verbatim>\<open>!isNaN(lat) && !isNaN(lon)\<close>.\<close>

definition handleManualSubmit1 :: "weather_json1 response \<Rightarrow> 'e tree_json response \<Rightarrow> state1 \<Rightarrow> state1" where
  "handleManualSubmit1 weather tree st =
     (let lat = parseFloat (manualLat st);
          lon = parseFloat (manualLon st)
      in if \<not> isNaN lat \<and> \<not> isNaN lon then fetchData1 lat lon weather tree st else st)"

section \<open>The power-law version\<close>

text \<open>
  The names of the second version that the first has too carry a prime here. Its tree
  density starts at 5 and is never \<^verbatim>\<open>null\<close>.
\<close>

record climate =
  windImpact :: real
  rainImpact :: real
  stormImpact :: real
  humidityImpact :: real
  temperatureImpact :: real

definition climateFactors :: climate where
  "climateFactors = \<lparr> windImpact = 25 / 10, rainImpact = 13 / 10, stormImpact = 3,
                       humidityImpact = 8 / 10, temperatureImpact = 11 / 10 \<rparr>"

record current_json =
  cur_wind_speed_10m :: number
  cur_precipitation :: number
  cur_rain :: number
  cur_temperature_2m :: number
  cur_relative_humidity_2m :: number

record weather_json2 =
  current :: "current_json option"

record weatherData_t =
  windSpeed' :: number
  precipitation :: number
  rain :: number
  temperature :: number
  humidity :: number
  isStormy :: bool

record state2 =
  coords' :: "(number \<times> number) option"
  weatherData :: "weatherData_t option"
  treeDensity' :: number
  timeExposure' :: number
  manualLat' :: string
  manualLon' :: string
  useManualCoords :: bool
  useManualTrees :: bool
  isLoading' :: bool

definition init2 :: state2 where
  "init2 = \<lparr> coords' = None, weatherData = None, treeDensity' = Num 5, timeExposure' = Num 30,
             manualLat' = '''', manualLon' = '''', useManualCoords = False,
             useManualTrees = False, isLoading' = False \<rparr>"

text \<open>The object that \<^verbatim>\<open>fetchData\<close> passes to \<^verbatim>\<open>setWeatherData\<close>.\<close>

definition snapshot :: "current_json \<Rightarrow> weatherData_t" where
  "snapshot c = \<lparr> windSpeed' = cur_wind_speed_10m c,
                  precipitation = cur_precipitation c,
                  rain = cur_rain c,
                  temperature = cur_temperature_2m c,
                  humidity = cur_relative_humidity_2m c,
                  isStormy = (Num 8 < cur_wind_speed_10m c) \<rparr>"

definition fetchData2_try :: "number \<Rightarrow> number \<Rightarrow> weather_json2 response \<Rightarrow> 'e tree_json response
    \<Rightarrow> state2 \<Rightarrow> state2 + state2" where
  "fetchData2_try lat lon weather tree st =
     (case weather of
        Rejected \<Rightarrow> Inl st
      | Json weatherJson \<Rightarrow>
          (let st1 = (case current weatherJson of
                        Some c \<Rightarrow> st\<lparr>weatherData := Some (snapshot c)\<rparr>
                      | None \<Rightarrow> st)
           in if \<not> useManualTrees st then
                (case tree of
                   Rejected \<Rightarrow> Inl st1
                 | Json treeJson \<Rightarrow> Inr (st1\<lparr>treeDensity' := elements_length_or_5 treeJson\<rparr>))
              else Inr st1))"

text \<open>
  \<^verbatim>\<open>fetchData\<close> of the second version: the weather data are reset and the coordinates
  stored before the \<^verbatim>\<open>try\<close> block.
\<close>

definition fetchData2 :: "number \<Rightarrow> number \<Rightarrow> weather_json2 response \<Rightarrow> 'e tree_json response
    \<Rightarrow> state2 \<Rightarrow> state2" where
  "fetchData2 lat lon weather tree st =
     (case fetchData2_try lat lon weather tree
             (st\<lparr>isLoading' := True, weatherData := None, coords' := Some (lat, lon)\<rparr>) of
        Inl st' \<Rightarrow> st'\<lparr>treeDensity' := Num 5, isLoading' := False\<rparr>
      | Inr st' \<Rightarrow> st'\<lparr>isLoading' := False\<rparr>)"

definition handleManualSubmit2 :: "weather_json2 response \<Rightarrow> 'e tree_json response \<Rightarrow> state2 \<Rightarrow> state2" where
  "handleManualSubmit2 weather tree st =
     (let lat = parseFloat (manualLat' st);
          lon = parseFloat (manualLon' st)
      in if \<not> isNaN lat \<and> \<not> isNaN lon then fetchData2 lat lon weather tree st else st)"

text \<open>\<^verbatim>\<open>calculateDanger\<close>: each \<^verbatim>\<open>risk *= factor\<close> is one binding of the chain.\<close>

definition calculateDanger :: "state2 \<Rightarrow> numstr option" where
  "calculateDanger st =
     (case weatherData st of
        None \<Rightarrow> None
      | Some wd \<Rightarrow>
          (let risk0 = Num 10 + Math_pow (windSpeed' wd) (15 / 10) * Num (windImpact climateFactors);
               risk1 = (if Num 0 < rain wd then risk0 * Num (rainImpact climateFactors) else risk0);
               risk2 = (if isStormy wd then risk1 * Num (stormImpact climateFactors) else risk1);
               risk3 = (if Num 30 < temperature wd then risk2 * Num (temperatureImpact climateFactors) else risk2);
               risk4 = (if humidity wd < Num 40 then risk3 * Num (humidityImpact climateFactors) else risk3)
           in Some (toFixed1 (Math_min (Num 100)
                      (risk4 * (treeDensity' st / Num 15) * (timeExposure' st / Num 120))))))"

inductive calculateDanger_run :: "state2 \<Rightarrow> numstr option \<Rightarrow> bool" where
  run: "calculateDanger_run st (calculateDanger st)"

section \<open>Auxiliary notions for the properties\<close>

text \<open>
  The number that the string \<^verbatim>\<open>x.toFixed(1)\<close> denotes: \<open>x\<close> rounded to tenths, half away
  from zero, and \<open>x\<close> itself from \<open>10^21\<close> on.
\<close>

definition tenths :: "real \<Rightarrow> real" where
  "tenths x =
     (if 10 ^ 21 \<le> \<bar>x\<bar> then x
      else if x < 0 then - (real_of_int \<lfloor>- x * 10 + 1 / 2\<rfloor> / 10)
      else real_of_int \<lfloor>x * 10 + 1 / 2\<rfloor> / 10)"

text \<open>The product of the weather factors that \<^verbatim>\<open>calculateDanger\<close> applies to the base risk.\<close>

definition multipliers :: "weatherData_t \<Rightarrow> real" where
  "multipliers wd =
     (if Num 0 < rain wd then 13 / 10 else 1) * (if isStormy wd then 3 else 1)
       * (if Num 30 < temperature wd then 11 / 10 else 1) * (if humidity wd < Num 40 then 8 / 10 else 1)"

text \<open>
  The number under the rounding and the clamp of \<^verbatim>\<open>calculateDanger\<close>: its variable
  \<^verbatim>\<open>risk\<close> after the four conditional factors, each \<open>factor\<close> being one \<^verbatim>\<open>if (...) risk *= k\<close>.
\<close>

definition factor :: "bool \<Rightarrow> real \<Rightarrow> number \<Rightarrow> number" where
  "factor c k risk = (if c then risk * Num k else risk)"

definition risk_of :: "weatherData_t \<Rightarrow> number" where
  "risk_of wd =
     factor (humidity wd < Num 40) (humidityImpact climateFactors)
       (factor (Num 30 < temperature wd) (temperatureImpact climateFactors)
         (factor (isStormy wd) (stormImpact climateFactors)
           (factor (Num 0 < rain wd) (rainImpact climateFactors)
             (Num 10 + Math_pow (windSpeed' wd) (15 / 10) * Num (windImpact climateFactors)))))"

text \<open>A number that is not negative: \<^verbatim>\<open>NaN\<close>, \<^verbatim>\<open>Infinity\<close> or a finite number from 0 on.\<close>

definition unsigned :: "number \<Rightarrow> bool" where
  "unsigned n = (case n of NaN \<Rightarrow> True | PosInfinity \<Rightarrow> True | NegInfinity \<Rightarrow> False | Num x \<Rightarrow> 0 \<le> x)"

text \<open>Two numbers in order, unless one of them is \<^verbatim>\<open>NaN\<close>.\<close>

definition ordered :: "number \<Rightarrow> number \<Rightarrow> bool" where
  "ordered a b = (a = NaN \<or> b = NaN \<or> a \<le> b)"

text \<open>A probability that is a number in \<open>[0, 100]\<close>, or \<^verbatim>\<open>NaN\<close>.\<close>

definition percent_or_NaN :: "number \<Rightarrow> bool" where
  "percent_or_NaN n = (case n of NaN \<Rightarrow> True | Num p \<Rightarrow> 0 \<le> p \<and> p \<le> 100 | _ \<Rightarrow> False)"

text \<open>
  The midday samples of an hourly answer, oldest first: the wind speeds at the positions
  whose time stamp ends in \<^verbatim>\<open>12:00\<close>.
\<close>

definition midday_samples :: "string list \<Rightarrow> number list \<Rightarrow> number option list" where
  "midday_samples hours speeds =
     map (at_index speeds) (filter (\<lambda>i. endsWith (hours ! i) ''12:00'') [0..<length hours])"

subsection \<open>Concrete runs\<close>

text \<open>First version: wind 0, 20 trees, under the trees all day (1440 minutes).\<close>

definition exposedAllDay :: state1 where
  "exposedAllDay =
     init1\<lparr>windSpeed := Some (Num 0), treeDensity := Some (Num 20), timeExposure := Num 1440\<rparr>"

text \<open>First version after a first fetch that found wind 3 and 12 trees.\<close>

definition fetched3 :: state1 where
  "fetched3 = fetchData1 (Num 10) (Num 76) (Json \<lparr>current_weather = Some (Num 3), hourly = None\<rparr>)
                (Json \<lparr>elements = Some (replicate 12 ())\<rparr>) init1"

text \<open>First version after a first fetch that found wind 0 and no tree.\<close>

definition fetched0 :: state1 where
  "fetched0 = fetchData1 (Num 10) (Num 76) (Json \<lparr>current_weather = Some (Num 0), hourly = None\<rparr>)
                (Json \<lparr>elements = Some ([] :: unit list)\<rparr>) init1"

text \<open>The state after the fetch that found wind 3, with \<^verbatim>\<open>Infinity\<close> typed as the manual latitude.\<close>

definition typedInfinity :: state1 where
  "typedInfinity = fetched3\<lparr>useManual := True, manualLat := ''Infinity'', manualLon := ''0''\<rparr>"

text \<open>
  Second version: the service reports wind 10, no rain, 20 degrees, humidity 50, and 15
  trees; the exposure is 120 minutes.
\<close>

definition current10 :: current_json where
  "current10 = \<lparr>cur_wind_speed_10m = Num 10, cur_precipitation = Num 0, cur_rain = Num 0,
                 cur_temperature_2m = Num 20, cur_relative_humidity_2m = Num 50\<rparr>"

definition fetched10 :: state2 where
  "fetched10 = fetchData2 (Num 10) (Num 76) (Json \<lparr>current = Some current10\<rparr>)
                 (Json \<lparr>elements = Some (replicate 15 ())\<rparr>) (init2\<lparr>timeExposure' := Num 120\<rparr>)"

section \<open>Properties\<close>

subsection \<open>Overflow\<close>

lemma threshold_above: "(10::real) ^ 300 < overflow_threshold"
  by (simp add: overflow_threshold_def)

lemma threshold_below: "overflow_threshold < (10::real) ^ 309"
  by (simp add: overflow_threshold_def)

lemma threshold_pos: "0 < overflow_threshold"
proof -
  have "(0::real) < 10 ^ 300" by simp
  then show ?thesis using threshold_above by (rule less_trans)
qed

lemma overflow_small: "\<bar>x\<bar> \<le> 10 ^ 300 \<Longrightarrow> overflow x = Num x"
  using threshold_above by (auto simp: overflow_def abs_if split: if_splits)

lemma overflow_big: "10 ^ 309 \<le> x \<Longrightarrow> overflow x = PosInfinity"
  using threshold_below by (simp add: overflow_def)

lemma overflow_not_NaN [simp]: "overflow x \<noteq> NaN"
  by (simp add: overflow_def)

lemma overflow_mono: "x \<le> y \<Longrightarrow> overflow x \<le> overflow y"
  using threshold_pos by (auto simp: overflow_def)

lemma le_PosInfinity [simp]: "a \<le> PosInfinity \<longleftrightarrow> a \<noteq> NaN"
  by (cases a) simp_all

lemma NegInfinity_le [simp]: "NegInfinity \<le> a \<longleftrightarrow> a \<noteq> NaN"
  by (cases a) simp_all

lemma number_le_trans: "a \<le> b \<Longrightarrow> b \<le> c \<Longrightarrow> a \<le> (c :: number)"
  by (cases a; cases b; cases c) simp_all

subsection \<open>Numbers that are not negative\<close>

lemma unsigned_simps [simp]:
  "unsigned NaN" "unsigned PosInfinity" "\<not> unsigned NegInfinity" "unsigned (Num x) \<longleftrightarrow> 0 \<le> x"
  by (simp_all add: unsigned_def)

lemma unsigned_overflow: "0 \<le> x \<Longrightarrow> unsigned (overflow x)"
  using threshold_pos by (simp add: overflow_def)

lemma unsigned_plus: "unsigned a \<Longrightarrow> unsigned b \<Longrightarrow> unsigned (a + b)"
  by (cases a; cases b) (simp_all add: unsigned_overflow)

lemma unsigned_times: "unsigned a \<Longrightarrow> unsigned b \<Longrightarrow> unsigned (a * b)"
  by (cases a; cases b) (simp_all add: unsigned_overflow)

lemma unsigned_divide: "0 \<le> x \<Longrightarrow> 0 < c \<Longrightarrow> unsigned (Num x / Num c)"
  by (simp add: unsigned_overflow)

lemma three_halves_not_int: "(3 / 2 :: real) \<notin> \<int>"
proof
  assume "(3 / 2 :: real) \<in> \<int>"
  then obtain k :: int where "(3 / 2 :: real) = of_int k" by (auto elim: Ints_cases)
  then have "real_of_int (2 * k) = real_of_int 3" by simp
  then have "2 * k = 3" by (simp only: of_int_eq_iff)
  then show False by presburger
qed

lemma Math_pow_three_halves:
  "Math_pow (Num w) (3 / 2) = (if w < 0 then NaN else overflow (w powr (3 / 2)))"
  using threshold_pos by (auto simp: Math_pow_def three_halves_not_int overflow_def)

lemma unsigned_Math_pow: "unsigned (Math_pow (Num w) (3 / 2))"
  by (simp add: Math_pow_three_halves unsigned_overflow)

lemma unsigned_factor: "0 \<le> k \<Longrightarrow> unsigned r \<Longrightarrow> unsigned (factor c k r)"
  by (simp add: factor_def unsigned_times)

lemma unsigned_risk_of: "windSpeed' wd = Num w \<Longrightarrow> unsigned (risk_of wd)"
  by (simp add: risk_of_def climateFactors_def unsigned_factor unsigned_plus unsigned_times
      unsigned_Math_pow)

lemma percent_or_NaN_min: "unsigned a \<Longrightarrow> percent_or_NaN (Math_min (Num 100) a)"
  by (cases a) (simp_all add: percent_or_NaN_def)

subsection \<open>Rounding to one decimal\<close>

lemma toFixed1_value: "ToNumber (toFixed1 (Num x)) = Num (tenths x)"
  by (auto simp: toFixed1_def Let_def abs_if tenths_def)

lemma probabilityPercent_toFixed1:
  "probabilityPercent (Some (toFixed1 (Num x))) = Some (tenths x)"
  by (simp add: probabilityPercent_def toFixed1_value)

lemma half_up_cap:
  fixes a :: real
  assumes "a < 10 ^ 21"
  shows "real_of_int \<lfloor>a * 10 + 1 / 2\<rfloor> \<le> 10 ^ 22"
proof -
  have "a * 10 + 1 / 2 < of_int (10 ^ 22) + 1" using assms by simp
  then have "\<lfloor>a * 10 + 1 / 2\<rfloor> \<le> (10 ^ 22 :: int)" by (simp only: floor_le_iff)
  then have "real_of_int \<lfloor>a * 10 + 1 / 2\<rfloor> \<le> real_of_int (10 ^ 22)" by (simp only: of_int_le_iff)
  then show ?thesis by simp
qed

lemma half_up_nonneg:
  fixes a :: real
  assumes "0 \<le> a"
  shows "0 \<le> real_of_int \<lfloor>a * 10 + 1 / 2\<rfloor>"
  using assms by simp

lemma half_up_mono:
  fixes a b :: real
  assumes "a \<le> b"
  shows "real_of_int \<lfloor>a * 10 + 1 / 2\<rfloor> \<le> real_of_int \<lfloor>b * 10 + 1 / 2\<rfloor>"
  using assms by (simp add: floor_mono)

lemma tenths_neg:
  assumes "x < 0" "\<bar>x\<bar> < 10 ^ 21"
  shows "tenths x \<le> 0" and "- (10 ^ 21) \<le> tenths x"
    and "x \<le> y \<Longrightarrow> y < 0 \<Longrightarrow> tenths x \<le> tenths y"
proof -
  define n where "n = real_of_int \<lfloor>- x * 10 + 1 / 2\<rfloor>"
  have t: "tenths x = - (n / 10)" using assms by (simp add: tenths_def n_def)
  have "0 \<le> n" unfolding n_def using assms half_up_nonneg [of "- x"] by simp
  then show "tenths x \<le> 0" using t by simp
  have "- x < 10 ^ 21" using assms by linarith
  then have "n \<le> 10 ^ 22" unfolding n_def by (rule half_up_cap)
  then show "- (10 ^ 21) \<le> tenths x" using t by simp
  show "tenths x \<le> tenths y" if "x \<le> y" "y < 0"
  proof -
    define m where "m = real_of_int \<lfloor>- y * 10 + 1 / 2\<rfloor>"
    from that assms have "\<bar>y\<bar> < 10 ^ 21" by linarith
    then have s: "tenths y = - (m / 10)" using that by (simp add: tenths_def m_def)
    from that have "- y \<le> - x" by simp
    then have "m \<le> n" unfolding m_def n_def by (rule half_up_mono)
    then show ?thesis using s t by simp
  qed
qed

lemma tenths_nonneg:
  assumes "0 \<le> x" "\<bar>x\<bar> < 10 ^ 21"
  shows "0 \<le> tenths x" and "tenths x \<le> 10 ^ 21"
    and "y \<le> x \<Longrightarrow> 0 \<le> y \<Longrightarrow> tenths y \<le> tenths x"
proof -
  define n where "n = real_of_int \<lfloor>x * 10 + 1 / 2\<rfloor>"
  have t: "tenths x = n / 10" using assms by (simp add: tenths_def n_def)
  have "0 \<le> n" unfolding n_def using assms by (intro half_up_nonneg)
  then show "0 \<le> tenths x" using t by simp
  have "x < 10 ^ 21" using assms by linarith
  then have "n \<le> 10 ^ 22" unfolding n_def by (rule half_up_cap)
  then show "tenths x \<le> 10 ^ 21" using t by simp
  show "tenths y \<le> tenths x" if "y \<le> x" "0 \<le> y"
  proof -
    define m where "m = real_of_int \<lfloor>y * 10 + 1 / 2\<rfloor>"
    from that assms have "\<bar>y\<bar> < 10 ^ 21" by linarith
    then have s: "tenths y = m / 10" using that by (simp add: tenths_def m_def)
    from that have "m \<le> n" unfolding m_def n_def by (intro half_up_mono)
    then show ?thesis using s t by simp
  qed
qed

lemma tenths_big: "10 ^ 21 \<le> \<bar>x\<bar> \<Longrightarrow> tenths x = x"
  by (simp add: tenths_def)

text \<open>Rounding never reverses the order of two values.\<close>

lemma tenths_mono:
  assumes "x \<le> y"
  shows "tenths x \<le> tenths y"
proof -
  consider (big_big) "10 ^ 21 \<le> \<bar>x\<bar>" "10 ^ 21 \<le> \<bar>y\<bar>"
    | (big_small) "10 ^ 21 \<le> \<bar>x\<bar>" "\<bar>y\<bar> < 10 ^ 21"
    | (small_big) "\<bar>x\<bar> < 10 ^ 21" "10 ^ 21 \<le> \<bar>y\<bar>"
    | (small_small) "\<bar>x\<bar> < 10 ^ 21" "\<bar>y\<bar> < 10 ^ 21"
    by linarith
  then show ?thesis
  proof cases
    case big_big
    then show ?thesis using assms by (simp add: tenths_big)
  next
    case big_small
    with assms have x: "x \<le> - (10 ^ 21)" by linarith
    have "- (10 ^ 21) \<le> tenths y"
    proof (cases "y < 0")
      case True
      then show ?thesis using big_small by (intro tenths_neg)
    next
      case False
      then have "0 \<le> tenths y" using big_small by (intro tenths_nonneg) simp_all
      then show ?thesis by simp
    qed
    with x show ?thesis using big_small by (simp add: tenths_big)
  next
    case small_big
    with assms have y: "10 ^ 21 \<le> y" by linarith
    have "tenths x \<le> 10 ^ 21"
    proof (cases "x < 0")
      case True
      then have "tenths x \<le> 0" using small_big by (intro tenths_neg)
      then show ?thesis by simp
    next
      case False
      then show ?thesis using small_big by (intro tenths_nonneg) simp_all
    qed
    with y show ?thesis using small_big by (simp add: tenths_big)
  next
    case small_small
    show ?thesis
    proof (cases "x < 0")
      case xneg: True
      show ?thesis
      proof (cases "y < 0")
        case True
        with xneg small_small assms show ?thesis by (intro tenths_neg)
      next
        case False
        have "tenths x \<le> 0" using xneg small_small by (intro tenths_neg)
        moreover have "0 \<le> tenths y" using False small_small by (intro tenths_nonneg) simp_all
        ultimately show ?thesis by simp
      qed
    next
      case False
      with assms small_small show ?thesis by (intro tenths_nonneg) simp_all
    qed
  qed
qed

lemma tenths_range:
  assumes "0 \<le> x" "x \<le> 100"
  shows "0 \<le> tenths x \<and> tenths x \<le> 100"
proof -
  have small: "\<not> 10 ^ 21 \<le> \<bar>x\<bar>" using assms by simp
  have "x * 10 + 1 / 2 < of_int 1000 + 1" using assms by simp
  then have "\<lfloor>x * 10 + 1 / 2\<rfloor> \<le> 1000" by (simp only: floor_le_iff)
  then have "real_of_int \<lfloor>x * 10 + 1 / 2\<rfloor> \<le> 1000" by linarith
  moreover have "0 \<le> real_of_int \<lfloor>x * 10 + 1 / 2\<rfloor>" using assms by simp
  ultimately show ?thesis using assms small by (simp add: tenths_def)
qed

lemma floor_between:
  fixes x :: real
  assumes "of_int n \<le> x" "x < of_int n + 1"
  shows "\<lfloor>x\<rfloor> = n"
  using assms by (simp add: floor_unique)

lemma toFixed1_small:
  assumes "0 \<le> x" "x < 10 ^ 21" "\<lfloor>x * 10 + 1 / 2\<rfloor> = int n"
  shows "toFixed1 (Num x) = Fixed1 False n"
  using assms by (simp add: toFixed1_def)

lemma toFixed1_small_neg:
  assumes "x < 0" "- x < 10 ^ 21" "\<lfloor>- x * 10 + 1 / 2\<rfloor> = int n"
  shows "toFixed1 (Num x) = Fixed1 True n"
  using assms by (simp add: toFixed1_def)

lemma toFixed1_half_up:
  assumes "0 \<le> x" "x < 10 ^ 21" "real n \<le> x * 10 + 1 / 2" "x * 10 + 1 / 2 < real n + 1"
  shows "toFixed1 (Num x) = Fixed1 False n"
  using assms by (intro toFixed1_small floor_between) simp_all

lemma toFixed1_half_up_neg:
  assumes "x < 0" "- x < 10 ^ 21" "real n \<le> - x * 10 + 1 / 2" "- x * 10 + 1 / 2 < real n + 1"
  shows "toFixed1 (Num x) = Fixed1 True n"
  using assms by (intro toFixed1_small_neg floor_between) simp_all

lemma percent_or_NaN_toFixed1: "percent_or_NaN v \<Longrightarrow> percent_or_NaN (ToNumber (toFixed1 v))"
proof (cases v)
  case (Num x)
  assume "percent_or_NaN v"
  with Num have "0 \<le> x" "x \<le> 100" by (simp_all add: percent_or_NaN_def)
  then have "0 \<le> tenths x \<and> tenths x \<le> 100" by (rule tenths_range)
  with Num show ?thesis by (simp add: toFixed1_value percent_or_NaN_def)
qed (simp_all add: toFixed1_def)

subsection \<open>Numbers in order unless one is NaN\<close>

lemma ordered_Num: "x \<le> y \<Longrightarrow> ordered (Num x) (Num y)"
  by (simp add: ordered_def)

lemma ordered_refl: "ordered a a"
  by (cases a) (simp_all add: ordered_def)

lemma ordered_overflow: "x \<le> y \<Longrightarrow> ordered (overflow x) (overflow y)"
  by (simp add: ordered_def overflow_mono)

lemma ordered_plus_right: "ordered a b \<Longrightarrow> ordered (a + e) (b + e)"
  by (cases a; cases b; cases e) (simp_all add: ordered_def overflow_mono)

lemma ordered_plus_left: "ordered a b \<Longrightarrow> ordered (e + a) (e + b)"
  by (cases a; cases b; cases e) (simp_all add: ordered_def overflow_mono)

lemma ordered_times: "ordered a b \<Longrightarrow> unsigned c \<Longrightarrow> ordered (a * c) (b * c)"
  by (cases a; cases b; cases c)
     (auto simp: ordered_def overflow_mono mult_right_mono)

lemma ordered_grow:
  assumes "ordered a b" "unsigned b" "1 \<le> k"
  shows "ordered a (b * Num k)"
proof (cases b)
  case (Num y)
  with assms have y: "0 \<le> y" by simp
  then have "y \<le> y * k" using assms(3) by (simp add: mult_le_cancel_left1)
  then have "overflow y \<le> overflow (y * k)" by (rule overflow_mono)
  moreover have "Num y \<le> overflow y"
    using y threshold_pos by (auto simp: overflow_def)
  ultimately have "Num y \<le> overflow (y * k)" by (rule number_le_trans [rotated])
  then have grown: "b \<le> b * Num k" using Num by simp
  show ?thesis
  proof (cases "a = NaN")
    case True
    then show ?thesis by (simp add: ordered_def)
  next
    case False
    with assms(1) Num have "a \<le> b" by (simp add: ordered_def)
    then have "a \<le> b * Num k" using grown by (rule number_le_trans)
    then show ?thesis by (simp add: ordered_def)
  qed
next
  case PosInfinity
  with assms show ?thesis by (cases a) (auto simp: ordered_def)
qed (use assms in \<open>simp_all add: ordered_def\<close>)

lemma ordered_Math_min: "ordered a b \<Longrightarrow> ordered (Math_min (Num 100) a) (Math_min (Num 100) b)"
  by (cases a; cases b) (auto simp: ordered_def min_le_iff_disj)

lemma ordered_toFixed1: "ordered a b \<Longrightarrow> ordered (ToNumber (toFixed1 a)) (ToNumber (toFixed1 b))"
  by (cases a; cases b) (auto simp: ordered_def toFixed1_value tenths_mono, simp_all add: toFixed1_def)

lemma ordered_Math_pow:
  "wa \<le> wb \<Longrightarrow> ordered (Math_pow (Num wa) (3 / 2)) (Math_pow (Num wb) (3 / 2))"
  by (auto simp: Math_pow_three_halves ordered_def intro!: overflow_mono powr_mono2)

lemma ordered_factor: "ordered a b \<Longrightarrow> 0 \<le> k \<Longrightarrow> ordered (factor c k a) (factor c k b)"
  by (simp add: factor_def ordered_times)

lemma ordered_factor_on:
  "ordered a b \<Longrightarrow> unsigned b \<Longrightarrow> 1 \<le> k \<Longrightarrow> (c \<longrightarrow> c') \<Longrightarrow> ordered (factor c k a) (factor c' k b)"
  by (auto simp: factor_def ordered_times ordered_grow)

subsection \<open>The two scoring formulas\<close>

lemma calculateDanger_risk_of:
  "weatherData st = Some wd \<Longrightarrow>
   calculateDanger st =
     Some (toFixed1 (Math_min (Num 100)
             (risk_of wd * (treeDensity' st / Num 15) * (timeExposure' st / Num 120))))"
  by (simp add: calculateDanger_def risk_of_def factor_def Let_def)

lemma ordered_risk_of:
  assumes "windSpeed' wda = Num wa" "windSpeed' wdb = Num wb" "wa \<le> wb"
    and "rain wda = rain wdb" "temperature wda = temperature wdb" "humidity wda = humidity wdb"
    and "isStormy wda \<longrightarrow> isStormy wdb"
  shows "ordered (risk_of wda) (risk_of wdb)"
proof -
  let ?base = "\<lambda>w. Num 10 + Math_pow (Num w) (3 / 2) * Num (5 / 2)"
  let ?rained = "\<lambda>w. factor (Num 0 < rain wdb) (13 / 10) (?base w)"
  have "ordered (?base wa) (?base wb)"
    using assms(3) by (intro ordered_plus_left ordered_times ordered_Math_pow) simp_all
  then have rained: "ordered (?rained wa) (?rained wb)"
    by (rule ordered_factor) simp
  have "unsigned (?rained wb)"
    by (intro unsigned_factor unsigned_plus unsigned_times unsigned_Math_pow) simp_all
  from rained this have "ordered (factor (isStormy wda) 3 (?rained wa)) (factor (isStormy wdb) 3 (?rained wb))"
    by (rule ordered_factor_on [OF _ _ _ assms(7)]) simp
  then have "ordered
      (factor (humidity wdb < Num 40) (8 / 10)
        (factor (Num 30 < temperature wdb) (11 / 10) (factor (isStormy wda) 3 (?rained wa))))
      (factor (humidity wdb < Num 40) (8 / 10)
        (factor (Num 30 < temperature wdb) (11 / 10) (factor (isStormy wdb) 3 (?rained wb))))"
    by (intro ordered_factor) simp_all
  then show ?thesis
    using assms by (simp add: risk_of_def climateFactors_def)
qed

lemma unsigned_ratio: "0 \<le> d \<Longrightarrow> 0 < c \<Longrightarrow> unsigned (Num d / Num c)"
  by (rule unsigned_divide)

subsection \<open>Arithmetic that stays finite\<close>

lemma Num_plus:
  assumes "\<bar>a\<bar> \<le> A" "\<bar>b\<bar> \<le> B" "A + B \<le> 10 ^ 300"
  shows "Num a + Num b = Num (a + b)" and "\<bar>a + b\<bar> \<le> A + B"
proof -
  show bound: "\<bar>a + b\<bar> \<le> A + B" using assms by linarith
  then have "\<bar>a + b\<bar> \<le> 10 ^ 300" using assms(3) by linarith
  then show "Num a + Num b = Num (a + b)" by (simp add: overflow_small)
qed

lemma Num_times:
  assumes "\<bar>a\<bar> \<le> A" "\<bar>b\<bar> \<le> B" "A * B \<le> 10 ^ 300"
  shows "Num a * Num b = Num (a * b)" and "\<bar>a * b\<bar> \<le> A * B"
proof -
  have "\<bar>a\<bar> * \<bar>b\<bar> \<le> A * B" using assms by (intro mult_mono) simp_all
  then show bound: "\<bar>a * b\<bar> \<le> A * B" by (simp add: abs_mult)
  then have "\<bar>a * b\<bar> \<le> 10 ^ 300" using assms(3) by linarith
  then show "Num a * Num b = Num (a * b)" by (simp add: overflow_small)
qed

lemma Num_divide:
  assumes "\<bar>a\<bar> \<le> A" "A \<le> 10 ^ 300" "1 \<le> c"
  shows "Num a / Num c = Num (a / c)" and "\<bar>a / c\<bar> \<le> A"
proof -
  have "\<bar>a\<bar> / c \<le> \<bar>a\<bar>" using assms(3) by (simp add: divide_le_eq mult_le_cancel_left1)
  then show bound: "\<bar>a / c\<bar> \<le> A" using assms by simp
  then have "\<bar>a / c\<bar> \<le> 10 ^ 300" using assms(2) by linarith
  then show "Num a / Num c = Num (a / c)" using assms(3) by (simp add: overflow_small)
qed

lemma coconutProbability_Num:
  assumes "windSpeed st = Some (Num w)" "treeDensity st = Some (Num d)" "timeExposure st = Num m"
    and w: "\<bar>w\<bar> \<le> 10 ^ 50" and d: "\<bar>d\<bar> \<le> 10 ^ 50" and m: "\<bar>m\<bar> \<le> 10 ^ 50"
    and r: "\<bar>random\<bar> \<le> 1"
  shows "coconutProbability random st =
           Some (toFixed1 (Num (min 100 ((10 + w * 2 + random * 5) * 5 * (d / 20) * (m / 1440)))))"
proof -
  have two: "\<bar>2 :: real\<bar> \<le> 2" and five: "\<bar>5 :: real\<bar> \<le> 5" and ten: "\<bar>10 :: real\<bar> \<le> 10"
    by simp_all
  have c: "(10 :: real) ^ 50 * 2 \<le> 10 ^ 300" "10 + (10 :: real) ^ 50 * 2 \<le> 10 ^ 300"
    "(1 :: real) * 5 \<le> 10 ^ 300" "10 + (10 :: real) ^ 50 * 2 + 1 * 5 \<le> 10 ^ 300"
    "(10 + (10 :: real) ^ 50 * 2 + 1 * 5) * 5 \<le> 10 ^ 300" "(10 :: real) ^ 50 \<le> 10 ^ 300"
    "(10 + (10 :: real) ^ 50 * 2 + 1 * 5) * 5 * 10 ^ 50 \<le> 10 ^ 300"
    "(10 + (10 :: real) ^ 50 * 2 + 1 * 5) * 5 * 10 ^ 50 * 10 ^ 50 \<le> 10 ^ 300"
    by simp_all
  note s1 = Num_times [OF w two c(1)]
  note s2 = Num_plus [OF ten s1(2) c(2)]
  note s3 = Num_times [OF r five c(3)]
  note s4 = Num_plus [OF s2(2) s3(2) c(4)]
  note s5 = Num_times [OF s4(2) five c(5)]
  note s6 = Num_divide [OF d c(6), of 20]
  note s7 = Num_times [OF s5(2) s6(2) c(7)]
  note s8 = Num_divide [OF m c(6), of 1440]
  note s9 = Num_times [OF s7(2) s8(2) c(8)]
  have "Num 10 + Num w * Num 2 + Num random * Num 5 = Num (10 + w * 2 + random * 5)"
    by (simp only: s1(1) s2(1) s3(1) s4(1))
  moreover have "Num (10 + w * 2 + random * 5) * Num 5 * (Num d / Num 20) * (Num m / Num 1440)
      = Num ((10 + w * 2 + random * 5) * 5 * (d / 20) * (m / 1440))"
    by (simp only: s5(1) s6(1) s7(1) s8(1) s9(1))
  ultimately show ?thesis
    by (simp only: coconutProbability_def assms(1-3) prod.case option.case Math_min.simps)
qed

lemma Num_factor:
  assumes "\<bar>x\<bar> \<le> A" "\<bar>k\<bar> \<le> K" "1 \<le> K" "A * K \<le> 10 ^ 300"
  shows "factor c k (Num x) = Num (x * (if c then k else 1))"
    and "\<bar>x * (if c then k else 1)\<bar> \<le> A * K"
proof -
  have one: "\<bar>1 :: real\<bar> \<le> K" using assms(3) by simp
  show "factor c k (Num x) = Num (x * (if c then k else 1))"
    using Num_times(1) [OF assms(1,2,4)] by (simp add: factor_def)
  show "\<bar>x * (if c then k else 1)\<bar> \<le> A * K"
    using Num_times(2) [OF assms(1,2,4)] Num_times(2) [OF assms(1) one assms(4)] by simp
qed

lemma risk_of_unfold:
  "risk_of wd =
     factor (humidity wd < Num 40) (4 / 5)
       (factor (Num 30 < temperature wd) (11 / 10)
         (factor (isStormy wd) 3
           (factor (Num 0 < rain wd) (13 / 10)
             (Num 10 + Math_pow (windSpeed' wd) (3 / 2) * Num (5 / 2)))))"
  by (simp add: risk_of_def climateFactors_def)

lemma powr_three_halves_bound:
  fixes w :: real
  assumes "0 \<le> w" "w \<le> 10 ^ 50"
  shows "\<bar>w powr (3 / 2)\<bar> \<le> 10 ^ 75"
proof -
  have "w powr (3 / 2) \<le> (10 ^ 50) powr (3 / 2)"
    using assms by (intro powr_mono2) simp_all
  also have "(10 ^ 50 :: real) = 10 powr 50" by (simp add: powr_realpow [symmetric])
  also have "(10 powr 50 :: real) powr (3 / 2) = 10 powr 75" by (simp add: powr_powr)
  also have "(10 :: real) powr 75 = 10 ^ 75" by (simp add: powr_realpow [symmetric])
  finally show ?thesis by simp
qed

lemma calculateDanger_Num:
  assumes "weatherData st = Some wd" "windSpeed' wd = Num w" "treeDensity' st = Num d"
    "timeExposure' st = Num m"
    and w: "0 \<le> w" "w \<le> 10 ^ 50" and d: "\<bar>d\<bar> \<le> 10 ^ 50" and m: "\<bar>m\<bar> \<le> 10 ^ 50"
  shows "calculateDanger st =
           Some (toFixed1 (Num (min 100 ((10 + w powr (3 / 2) * (5 / 2)) * multipliers wd * (d / 15) * (m / 120)))))"
proof -
  let ?base = "10 + w powr (3 / 2) * (5 / 2)"
  let ?r = "if Num 0 < rain wd then 13 / 10 else (1 :: real)"
  let ?s = "if isStormy wd then 3 else (1 :: real)"
  let ?t = "if Num 30 < temperature wd then 11 / 10 else (1 :: real)"
  let ?h = "if humidity wd < Num 40 then 4 / 5 else (1 :: real)"
  have k: "\<bar>5 / 2 :: real\<bar> \<le> 5 / 2" "\<bar>10 :: real\<bar> \<le> 10" "\<bar>13 / 10 :: real\<bar> \<le> 2"
    "\<bar>3 :: real\<bar> \<le> 3" "\<bar>11 / 10 :: real\<bar> \<le> 2" "\<bar>4 / 5 :: real\<bar> \<le> 1"
    "(1 :: real) \<le> 2" "(1 :: real) \<le> 3" "(1 :: real) \<le> 1"
    by simp_all
  have c: "(10 :: real) ^ 75 \<le> 10 ^ 300" "(10 :: real) ^ 75 * (5 / 2) \<le> 10 ^ 300"
    "10 + (10 :: real) ^ 75 * (5 / 2) \<le> 10 ^ 300"
    "(10 + (10 :: real) ^ 75 * (5 / 2)) * 2 \<le> 10 ^ 300"
    "(10 + (10 :: real) ^ 75 * (5 / 2)) * 2 * 3 \<le> 10 ^ 300"
    "(10 + (10 :: real) ^ 75 * (5 / 2)) * 2 * 3 * 2 \<le> 10 ^ 300"
    "(10 + (10 :: real) ^ 75 * (5 / 2)) * 2 * 3 * 2 * 1 \<le> 10 ^ 300"
    "(10 :: real) ^ 50 \<le> 10 ^ 300"
    "(10 + (10 :: real) ^ 75 * (5 / 2)) * 2 * 3 * 2 * 1 * 10 ^ 50 \<le> 10 ^ 300"
    "(10 + (10 :: real) ^ 75 * (5 / 2)) * 2 * 3 * 2 * 1 * 10 ^ 50 * 10 ^ 50 \<le> 10 ^ 300"
    by simp_all
  note b0 = powr_three_halves_bound [OF w]
  have s0: "Math_pow (Num w) (3 / 2) = Num (w powr (3 / 2))"
    using w(1) b0 c(1) by (simp add: Math_pow_three_halves overflow_small)
  note s1 = Num_times [OF b0 k(1) c(2)]
  note s2 = Num_plus [OF k(2) s1(2) c(3)]
  note s3 = Num_factor [OF s2(2) k(3) k(7) c(4), of "Num 0 < rain wd"]
  note s4 = Num_factor [OF s3(2) k(4) k(8) c(5), of "isStormy wd"]
  note s5 = Num_factor [OF s4(2) k(5) k(7) c(6), of "Num 30 < temperature wd"]
  note s6 = Num_factor [OF s5(2) k(6) k(9) c(7), of "humidity wd < Num 40"]
  note s7 = Num_divide [OF d c(8), of 15]
  note s8 = Num_times [OF s6(2) s7(2) c(9)]
  note s9 = Num_divide [OF m c(8), of 120]
  note s10 = Num_times [OF s8(2) s9(2) c(10)]
  have "risk_of wd = Num (?base * ?r * ?s * ?t * ?h)"
    by (simp only: risk_of_unfold assms(2) s0 s1(1) s2(1) s3(1) s4(1) s5(1) s6(1))
  then have "risk_of wd * (Num d / Num 15) * (Num m / Num 120)
      = Num (?base * ?r * ?s * ?t * ?h * (d / 15) * (m / 120))"
    by (simp only: s7(1) s8(1) s9(1) s10(1))
  also have "?base * ?r * ?s * ?t * ?h = ?base * multipliers wd"
    by (simp add: multipliers_def)
  finally show ?thesis
    by (simp only: calculateDanger_risk_of [OF assms(1)] assms(3,4) Math_min.simps)
qed

lemma percent_or_NaN_iff:
  "percent_or_NaN n \<longleftrightarrow> n = NaN \<or> (\<exists>p. n = Num p \<and> 0 \<le> p \<and> p \<le> 100)"
  by (cases n) (simp_all add: percent_or_NaN_def)

lemma coconutProbability_percent_or_NaN:
  assumes "windSpeed st = Some (Num w)" "0 \<le> w" "treeDensity st = Some (Num d)" "0 \<le> d"
    "timeExposure st = Num m" "0 \<le> m" "0 \<le> random"
  shows "\<exists>s. coconutProbability random st = Some s \<and> percent_or_NaN (ToNumber s)"
proof -
  let ?score = "(Num 10 + Num w * Num 2 + Num random * Num 5) * Num 5 * (Num d / Num 20) * (Num m / Num 1440)"
  have "unsigned ?score"
    using assms by (intro unsigned_times unsigned_plus unsigned_divide) simp_all
  then have "percent_or_NaN (ToNumber (toFixed1 (Math_min (Num 100) ?score)))"
    by (intro percent_or_NaN_toFixed1 percent_or_NaN_min)
  moreover have "coconutProbability random st = Some (toFixed1 (Math_min (Num 100) ?score))"
    using assms by (simp only: coconutProbability_def prod.case option.case)
  ultimately show ?thesis by blast
qed

lemma calculateDanger_percent_or_NaN:
  assumes "weatherData st = Some wd" "windSpeed' wd = Num w" "treeDensity' st = Num d" "0 \<le> d"
    "timeExposure' st = Num m" "0 \<le> m"
  shows "\<exists>s. calculateDanger st = Some s \<and> percent_or_NaN (ToNumber s)"
proof -
  let ?score = "risk_of wd * (Num d / Num 15) * (Num m / Num 120)"
  have "unsigned ?score"
    using assms unsigned_risk_of [OF assms(2)] by (intro unsigned_times unsigned_divide) simp_all
  then have "percent_or_NaN (ToNumber (toFixed1 (Math_min (Num 100) ?score)))"
    by (intro percent_or_NaN_toFixed1 percent_or_NaN_min)
  moreover have "calculateDanger st = Some (toFixed1 (Math_min (Num 100) ?score))"
    using assms by (simp only: calculateDanger_risk_of [OF assms(1)])
  ultimately show ?thesis by blast
qed

lemma coconutProbability_ordered:
  assumes "wa \<le> wb" "windSpeed st = Some (Num wa)" "treeDensity st = Some (Num d)" "0 \<le> d"
    "timeExposure st = Num m" "0 \<le> m"
  shows "\<exists>a b. coconutProbability random st = Some a \<and>
           coconutProbability random (st\<lparr>windSpeed := Some (Num wb)\<rparr>) = Some b \<and>
           ordered (ToNumber a) (ToNumber b)"
proof -
  let ?score = "\<lambda>w. (Num 10 + Num w * Num 2 + Num random * Num 5) * Num 5 * (Num d / Num 20) * (Num m / Num 1440)"
  have "ordered (Num wa * Num 2) (Num wb * Num 2)"
    using assms(1) by (intro ordered_times ordered_Num) simp_all
  then have "ordered (Num 10 + Num wa * Num 2 + Num random * Num 5) (Num 10 + Num wb * Num 2 + Num random * Num 5)"
    by (intro ordered_plus_right ordered_plus_left)
  then have "ordered (?score wa) (?score wb)"
    using assms by (intro ordered_times unsigned_divide) simp_all
  then have "ordered (ToNumber (toFixed1 (Math_min (Num 100) (?score wa))))
      (ToNumber (toFixed1 (Math_min (Num 100) (?score wb))))"
    by (intro ordered_toFixed1 ordered_Math_min)
  moreover have "coconutProbability random st = Some (toFixed1 (Math_min (Num 100) (?score wa)))"
    using assms by (simp only: coconutProbability_def prod.case option.case)
  moreover have "coconutProbability random (st\<lparr>windSpeed := Some (Num wb)\<rparr>)
      = Some (toFixed1 (Math_min (Num 100) (?score wb)))"
    using assms by (simp add: coconutProbability_def)
  ultimately show ?thesis by blast
qed

lemma calculateDanger_ordered:
  assumes "va \<le> vb" "windSpeed' wda = Num va" "windSpeed' wdb = Num vb"
    and "rain wda = rain wdb" "temperature wda = temperature wdb" "humidity wda = humidity wdb"
    and "isStormy wda \<longrightarrow> isStormy wdb"
    and "treeDensity' pst = Num dp" "0 \<le> dp" "timeExposure' pst = Num mp" "0 \<le> mp"
  shows "\<exists>a b. calculateDanger (pst\<lparr>weatherData := Some wda\<rparr>) = Some a \<and>
           calculateDanger (pst\<lparr>weatherData := Some wdb\<rparr>) = Some b \<and>
           ordered (ToNumber a) (ToNumber b)"
proof -
  let ?score = "\<lambda>wd. risk_of wd * (Num dp / Num 15) * (Num mp / Num 120)"
  have "ordered (risk_of wda) (risk_of wdb)"
    using assms(2,3,1,4,5,6,7) by (rule ordered_risk_of)
  then have "ordered (?score wda) (?score wdb)"
    using assms by (intro ordered_times unsigned_divide) simp_all
  then have "ordered (ToNumber (toFixed1 (Math_min (Num 100) (?score wda))))
      (ToNumber (toFixed1 (Math_min (Num 100) (?score wdb))))"
    by (intro ordered_toFixed1 ordered_Math_min)
  moreover have "calculateDanger (pst\<lparr>weatherData := Some wd\<rparr>)
      = Some (toFixed1 (Math_min (Num 100) (?score wd)))" for wd
    using assms by (simp add: calculateDanger_risk_of [of "pst\<lparr>weatherData := Some wd\<rparr>" wd])
  ultimately show ?thesis by blast
qed

lemma multipliers_nonneg: "0 \<le> multipliers wd"
  by (simp add: multipliers_def)

lemma coconutProbability_bounded:
  assumes "windSpeed st = Some (Num w)" "treeDensity st = Some (Num d)" "timeExposure st = Num m"
    and "\<bar>w\<bar> \<le> 10 ^ 50" "0 \<le> d" "d \<le> 10 ^ 50" "0 \<le> m" "m \<le> 10 ^ 50" "\<bar>random\<bar> \<le> 1"
  shows "probabilityPercent (coconutProbability random st)
           = Some (tenths (min 100 ((10 + w * 2 + random * 5) * 5 * (d / 20) * (m / 1440))))"
proof -
  have "\<bar>d\<bar> \<le> 10 ^ 50" "\<bar>m\<bar> \<le> 10 ^ 50" using assms by simp_all
  with assms show ?thesis
    by (simp only: coconutProbability_Num [of st w d m random] probabilityPercent_toFixed1)
qed

lemma calculateDanger_bounded:
  assumes "weatherData st = Some wd" "windSpeed' wd = Num w" "treeDensity' st = Num d"
    "timeExposure' st = Num m"
    and "0 \<le> w" "w \<le> 10 ^ 50" "0 \<le> d" "d \<le> 10 ^ 50" "0 \<le> m" "m \<le> 10 ^ 50"
  shows "probabilityPercent (calculateDanger st)
           = Some (tenths (min 100 ((10 + w powr (3 / 2) * (5 / 2)) * multipliers wd * (d / 15) * (m / 120))))"
proof -
  have "\<bar>d\<bar> \<le> 10 ^ 50" "\<bar>m\<bar> \<le> 10 ^ 50" using assms by simp_all
  with assms show ?thesis
    by (simp only: calculateDanger_Num [of st wd w d m] probabilityPercent_toFixed1)
qed

lemma ordered_percent:
  assumes "ordered (ToNumber a) (ToNumber b)"
    and "probabilityPercent (Some a) = Some p" "probabilityPercent (Some b) = Some q"
  shows "p \<le> q"
  using assms by (auto simp: probabilityPercent_def ordered_def split: number.splits)

lemma sqrt10_bounds: "3162 / 1000 \<le> sqrt 10" "sqrt 10 < 3163 / 1000"
proof -
  show "3162 / 1000 \<le> sqrt 10" by (rule real_le_rsqrt) (simp add: power2_eq_square)
  show "sqrt 10 < 3163 / 1000" by (rule real_less_lsqrt) (simp_all add: power2_eq_square)
qed

lemma ten_powr_three_halves: "(10::real) powr (3 / 2) = 10 * sqrt 10"
proof -
  have "(10::real) powr (3 / 2) = 10 powr (1 + 1 / 2)" by simp
  also have "\<dots> = 10 powr 1 * 10 powr (1 / 2)" by (rule powr_add)
  also have "\<dots> = 10 * sqrt 10" by (simp add: powr_half_sqrt)
  finally show ?thesis .
qed

subsection \<open>The concrete runs\<close>

lemma fetched3_fields:
  "windSpeed fetched3 = Some (Num 3)" "treeDensity fetched3 = Some (Num 12)"
  "timeExposure fetched3 = Num 30" "coords fetched3 = Some (Num 10, Num 76)"
  by (simp_all add: fetched3_def fetchData1_def fetchData1_try_def init1_def
      elements_length_or_5_def number_or_def truthy_def)

lemma fetched0_fields:
  "windSpeed fetched0 = Some (Num 0)" "treeDensity fetched0 = Some (Num 5)"
  "timeExposure fetched0 = Num 30"
  by (simp_all add: fetched0_def fetchData1_def fetchData1_try_def init1_def
      elements_length_or_5_def number_or_def truthy_def)

lemma fetched10_fields:
  "weatherData fetched10 = Some \<lparr>windSpeed' = Num 10, precipitation = Num 0, rain = Num 0,
       temperature = Num 20, humidity = Num 50, isStormy = True\<rparr>"
  "treeDensity' fetched10 = Num 15" "timeExposure' fetched10 = Num 120"
  "\<not> useManualTrees fetched10"
  by (simp_all add: fetched10_def fetchData2_def fetchData2_try_def init2_def current10_def
      snapshot_def elements_length_or_5_def number_or_def truthy_def)

lemma calculateDanger_fetched10: "calculateDanger fetched10 = Some (Fixed1 False 1000)"
proof -
  let ?wd = "\<lparr>windSpeed' = Num 10, precipitation = Num 0, rain = Num 0,
       temperature = Num 20, humidity = Num 50, isStormy = True\<rparr>"
  define x :: real where "x = (10 + 25 * sqrt 10) * 3"
  have lo: "100 \<le> x" using sqrt10_bounds by (simp add: x_def)
  have "calculateDanger fetched10 =
      Some (toFixed1 (Num (min 100 ((10 + 10 powr (3 / 2) * (5 / 2)) * multipliers ?wd * (15 / 15) * (120 / 120)))))"
    by (rule calculateDanger_Num) (simp_all add: fetched10_fields)
  also have "(10 + 10 powr (3 / 2) * (5 / 2)) * multipliers ?wd * (15 / 15) * (120 / 120) = x"
    by (simp add: multipliers_def ten_powr_three_halves x_def)
  also have "min 100 x = 100" using lo by simp
  also have "toFixed1 (Num 100) = Fixed1 False 1000" by (simp add: toFixed1_def)
  finally show ?thesis .
qed

lemma coconutProbability_exposedAllDay:
  "coconutProbability 0 exposedAllDay = Some (Fixed1 False 500)"
  "coconutProbability (9 / 10) exposedAllDay = Some (Fixed1 False 725)"
  by (simp_all add: coconutProbability_def exposedAllDay_def init1_def toFixed1_def overflow_small)

subsection \<open>The loop over the hourly answer\<close>

lemma dailySpeeds_loop_collects:
  "dailySpeeds_loop hours speeds i acc =
     acc @ map (at_index speeds) (filter (\<lambda>j. endsWith (hours ! j) ''12:00'') [i..<length hours])"
proof (induction hours speeds i acc rule: dailySpeeds_loop.induct)
  case (1 hours speeds i acc)
  show ?case
  proof (cases "i < length hours")
    case True
    then have "[i..<length hours] = i # [i + 1..<length hours]" by (simp add: upt_conv_Cons)
    with True "1.IH" show ?thesis
      by (subst dailySpeeds_loop.simps) simp
  next
    case False
    then show ?thesis by (subst dailySpeeds_loop.simps) simp
  qed
qed

lemma dailySpeeds_loop_midday: "dailySpeeds_loop hours speeds 0 [] = midday_samples hours speeds"
  by (simp add: dailySpeeds_loop_collects midday_samples_def)

lemma fetchData1_windHistory:
  "windHistory (fetchData1 lat lon weather tree st) = windHistory st \<or>
   (\<exists>hours speeds. windHistory (fetchData1 lat lon weather tree st) = slice_last5 (midday_samples hours speeds))"
  by (auto simp: fetchData1_def fetchData1_try_def dailySpeeds_loop_midday Let_def
      split: response.splits option.splits sum.splits)

text \<open>
  Six midday samples among eight hourly ones: the history keeps the last five of the six.
\<close>

lemma windHistory_example:
  "windHistory (fetchData1 (Num 10) (Num 76)
    (Json \<lparr>current_weather = Some (Num 3), hourly = Some \<lparr>time = Some
       [''2024-01-01T11:00'', ''2024-01-01T12:00'', ''2024-01-02T12:00'', ''2024-01-03T12:00'',
        ''2024-01-04T12:00'', ''2024-01-05T12:00'', ''2024-01-06T12:00'', ''2024-01-06T13:00''],
       wind_speed_10m = Some [Num 1, Num 2, Num 3, Num 4, Num 5, Num 6, Num 7, Num 8]\<rparr>\<rparr>)
    (Json \<lparr>elements = Some [()]\<rparr>) init1) = [Some (Num 3), Some (Num 4), Some (Num 5), Some (Num 6), Some (Num 7)]"
  by (simp add: fetchData1_def fetchData1_try_def init1_def slice_last5_def Let_def
      dailySpeeds_loop.simps endsWith_def at_index_def)

subsection \<open>A failed weather lookup in the second version\<close>

lemma fetchData2_failed_weather:
  "weatherData (fetchData2 lat lon Rejected tree st) = None"
  "weatherData (fetchData2 lat lon (Json \<lparr>current = None\<rparr>) tree st) = None"
  by (cases tree; simp add: fetchData2_def fetchData2_try_def Let_def)+

lemma calculateDanger_failed_weather:
  "calculateDanger (fetchData2 lat lon Rejected tree st) = None"
  "calculateDanger (fetchData2 lat lon (Json \<lparr>current = None\<rparr>) tree st) = None"
  by (simp_all add: calculateDanger_def fetchData2_failed_weather)


section \<open>The claims\<close>

text \<open>
  C1, as stated, fails. Linear policy, 20 trees, 1440 minutes, draw 0: at wind -10 the
  probability is -50. At wind \<open>10^308\<close> with 0 minutes the sum overflows to \<^verbatim>\<open>Infinity\<close>,
  which times 0 is \<^verbatim>\<open>NaN\<close>, and the result is the string \<^verbatim>\<open>NaN\<close>; so it is for the
  power-law policy at wind \<open>10^300\<close> with 0 minutes.
\<close>

theorem probability_range_counterexample:
  "probabilityPercent (coconutProbability 0 (exposedAllDay\<lparr>windSpeed := Some (Num (- 10))\<rparr>)) = Some (- 50) \<and>
   coconutProbability 0 (exposedAllDay\<lparr>windSpeed := Some (Num (10 ^ 308)), timeExposure := Num 0\<rparr>)
     = Some (NumberToString NaN) \<and>
   calculateDanger
      (fetched10\<lparr>timeExposure' := Num 0,
                 weatherData := Some (snapshot (current10\<lparr>cur_wind_speed_10m := Num (10 ^ 300)\<rparr>))\<rparr>)
     = Some (NumberToString NaN)"
proof (intro conjI)
  show "probabilityPercent (coconutProbability 0 (exposedAllDay\<lparr>windSpeed := Some (Num (- 10))\<rparr>))
      = Some (- 50)"
    by (simp add: probabilityPercent_def coconutProbability_def exposedAllDay_def init1_def toFixed1_def
        overflow_small)
  have "overflow (10 ^ 308 * 2) = PosInfinity"
    by (simp add: overflow_def overflow_threshold_def)
  then show "coconutProbability 0 (exposedAllDay\<lparr>windSpeed := Some (Num (10 ^ 308)), timeExposure := Num 0\<rparr>)
      = Some (NumberToString NaN)"
    by (simp add: coconutProbability_def exposedAllDay_def init1_def toFixed1_def overflow_small)
  have "(10 ^ 300 :: real) powr (3 / 2) = 10 ^ 450"
  proof -
    have e1: "(10 :: real) powr real (300 :: nat) = 10 ^ 300" by (rule powr_realpow) simp
    have e2: "(10 :: real) powr real (450 :: nat) = 10 ^ 450" by (rule powr_realpow) simp
    have "(10 ^ 300 :: real) powr (3 / 2) = (10 powr real (300 :: nat)) powr (3 / 2)"
      by (simp only: e1)
    also have "\<dots> = 10 powr (real (300 :: nat) * (3 / 2))" by (rule powr_powr)
    also have "real (300 :: nat) * (3 / 2) = real (450 :: nat)" by simp
    also note e2
    finally show ?thesis .
  qed
  then have "Math_pow (Num (10 ^ 300)) (3 / 2) = PosInfinity"
    by (simp add: Math_pow_three_halves overflow_big)
  then show "calculateDanger
      (fetched10\<lparr>timeExposure' := Num 0,
                 weatherData := Some (snapshot (current10\<lparr>cur_wind_speed_10m := Num (10 ^ 300)\<rparr>))\<rparr>)
     = Some (NumberToString NaN)"
    by (simp add: calculateDanger_def fetched10_fields snapshot_def current10_def climateFactors_def
        toFixed1_def overflow_small)
qed

text \<open>
  C1, amended. For a wind speed, a tree density and minutes per day that are finite and
  not negative (the other weather fields arbitrary, any draw in \<open>[0, 1)\<close>), the probability
  computed by either scoring policy is a number in \<open>[0, 100]\<close> or is \<^verbatim>\<open>NaN\<close>; when the three
  inputs are at most \<open>10^50\<close>, so that no intermediate result overflows, it is a number in
  \<open>[0, 100]\<close>.
\<close>

theorem probability_within_0_100:
  assumes "0 \<le> random" "random < 1"
    and "windSpeed st = Some (Num w)" "0 \<le> w"
    and "treeDensity st = Some (Num d)" "0 \<le> d"
    and "timeExposure st = Num m" "0 \<le> m"
    and "weatherData pst = Some wd" "windSpeed' wd = Num wp" "0 \<le> wp"
    and "treeDensity' pst = Num dp" "0 \<le> dp"
    and "timeExposure' pst = Num mp" "0 \<le> mp"
  shows "(\<exists>s. coconutProbability random st = Some s \<and>
            (ToNumber s = NaN \<or> (\<exists>p. ToNumber s = Num p \<and> 0 \<le> p \<and> p \<le> 100))) \<and>
         (w \<le> 10 ^ 50 \<and> d \<le> 10 ^ 50 \<and> m \<le> 10 ^ 50 \<longrightarrow>
            (\<exists>p. probabilityPercent (coconutProbability random st) = Some p \<and> 0 \<le> p \<and> p \<le> 100)) \<and>
         (\<exists>s. calculateDanger pst = Some s \<and>
            (ToNumber s = NaN \<or> (\<exists>p. ToNumber s = Num p \<and> 0 \<le> p \<and> p \<le> 100))) \<and>
         (wp \<le> 10 ^ 50 \<and> dp \<le> 10 ^ 50 \<and> mp \<le> 10 ^ 50 \<longrightarrow>
            (\<exists>p. probabilityPercent (calculateDanger pst) = Some p \<and> 0 \<le> p \<and> p \<le> 100))"
proof (intro conjI impI)
  show "\<exists>s. coconutProbability random st = Some s \<and>
      (ToNumber s = NaN \<or> (\<exists>p. ToNumber s = Num p \<and> 0 \<le> p \<and> p \<le> 100))"
    using coconutProbability_percent_or_NaN [OF assms(3,4,5,6,7,8,1)]
    by (simp only: percent_or_NaN_iff)
  show "\<exists>s. calculateDanger pst = Some s \<and>
      (ToNumber s = NaN \<or> (\<exists>p. ToNumber s = Num p \<and> 0 \<le> p \<and> p \<le> 100))"
    using calculateDanger_percent_or_NaN [OF assms(9,10,12,13,14,15)]
    by (simp only: percent_or_NaN_iff)
next
  assume small: "w \<le> 10 ^ 50 \<and> d \<le> 10 ^ 50 \<and> m \<le> 10 ^ 50"
  define x where "x = (10 + w * 2 + random * 5) * 5 * (d / 20) * (m / 1440)"
  have "0 \<le> x" unfolding x_def using assms by simp
  then have "0 \<le> min 100 x" "min 100 x \<le> 100" by simp_all
  then have "0 \<le> tenths (min 100 x) \<and> tenths (min 100 x) \<le> 100" by (rule tenths_range)
  moreover have "probabilityPercent (coconutProbability random st) = Some (tenths (min 100 x))"
    unfolding x_def using assms small by (intro coconutProbability_bounded) simp_all
  ultimately show "\<exists>p. probabilityPercent (coconutProbability random st) = Some p \<and> 0 \<le> p \<and> p \<le> 100"
    by blast
next
  assume small: "wp \<le> 10 ^ 50 \<and> dp \<le> 10 ^ 50 \<and> mp \<le> 10 ^ 50"
  define y where "y = (10 + wp powr (3 / 2) * (5 / 2)) * multipliers wd * (dp / 15) * (mp / 120)"
  have "0 \<le> wp powr (3 / 2)" by simp
  then have "0 \<le> 10 + wp powr (3 / 2) * (5 / 2)" by simp
  then have "0 \<le> y" unfolding y_def using assms multipliers_nonneg [of wd] by simp
  then have "0 \<le> min 100 y" "min 100 y \<le> 100" by simp_all
  then have "0 \<le> tenths (min 100 y) \<and> tenths (min 100 y) \<le> 100" by (rule tenths_range)
  moreover have "probabilityPercent (calculateDanger pst) = Some (tenths (min 100 y))"
    unfolding y_def using assms small by (intro calculateDanger_bounded) simp_all
  ultimately show "\<exists>p. probabilityPercent (calculateDanger pst) = Some p \<and> 0 \<le> p \<and> p \<le> 100"
    by blast
qed

text \<open>The theorem at wind 3 with 12 trees (first version) and at wind 10 (second version).\<close>

theorem probability_within_0_100_witness:
  "(\<exists>p. probabilityPercent (coconutProbability (1 / 2) fetched3) = Some p \<and> 0 \<le> p \<and> p \<le> 100) \<and>
   (\<exists>p. probabilityPercent (calculateDanger fetched10) = Some p \<and> 0 \<le> p \<and> p \<le> 100)"
  using probability_within_0_100 [where random = "1 / 2" and w = 3 and d = 12 and m = 30
      and st = fetched3 and wp = 10 and dp = 15 and mp = 120 and pst = fetched10
      and wd = "\<lparr>windSpeed' = Num 10, precipitation = Num 0, rain = Num 0,
                 temperature = Num 20, humidity = Num 50, isStormy = True\<rparr>"]
  by (simp add: fetched3_fields fetched10_fields)

text \<open>
  C2, as stated, fails for the linear policy: on the same inputs (wind 0, 20 trees, 1440
  minutes) an evaluation that draws 0 returns \<^verbatim>\<open>50.0\<close> and one that draws 0.9 returns
  \<^verbatim>\<open>72.5\<close>.
\<close>

theorem jitter_counterexample:
  "coconutProbability_run exposedAllDay 0 (Some (Fixed1 False 500)) \<and>
   coconutProbability_run exposedAllDay (9 / 10) (Some (Fixed1 False 725))"
proof
  from draw [of 0 exposedAllDay]
  show "coconutProbability_run exposedAllDay 0 (Some (Fixed1 False 500))"
    by (simp add: coconutProbability_exposedAllDay)
  from draw [of "9 / 10" exposedAllDay]
  show "coconutProbability_run exposedAllDay (9 / 10) (Some (Fixed1 False 725))"
    by (simp add: coconutProbability_exposedAllDay)
qed

text \<open>
  C2, amended. The result of the power-law scoring function is fixed by the weather
  snapshot, the tree density and the exposure minutes alone: two evaluations in states
  that agree on these three return the same probability, whatever else the states hold.
  The result of the linear policy is fixed by the wind speed, the tree density, the
  exposure minutes and the number drawn: two evaluations that agree on these four return
  the same probability.
\<close>

theorem scoring_fixed_by_inputs_and_draw:
  "(weatherData s = weatherData t \<and> treeDensity' s = treeDensity' t \<and> timeExposure' s = timeExposure' t \<and>
    calculateDanger_run s p \<and> calculateDanger_run t q \<longrightarrow> p = q) \<and>
   (windSpeed u = windSpeed v \<and> treeDensity u = treeDensity v \<and> timeExposure u = timeExposure v \<and>
    coconutProbability_run u random a \<and> coconutProbability_run v random b \<longrightarrow> a = b)"
proof (intro conjI impI)
  assume h: "weatherData s = weatherData t \<and> treeDensity' s = treeDensity' t \<and>
    timeExposure' s = timeExposure' t \<and> calculateDanger_run s p \<and> calculateDanger_run t q"
  then have "p = calculateDanger s" "q = calculateDanger t"
    by (auto elim: calculateDanger_run.cases)
  moreover from h have "calculateDanger s = calculateDanger t"
    by (cases "weatherData t") (simp_all add: calculateDanger_def)
  ultimately show "p = q" by simp
next
  assume h: "windSpeed u = windSpeed v \<and> treeDensity u = treeDensity v \<and>
    timeExposure u = timeExposure v \<and> coconutProbability_run u random a \<and> coconutProbability_run v random b"
  then have "a = coconutProbability random u" "b = coconutProbability random v"
    by (auto elim: coconutProbability_run.cases)
  moreover from h have "coconutProbability random u = coconutProbability random v"
    by (cases "windSpeed v"; cases "treeDensity v") (simp_all add: coconutProbability_def)
  ultimately show "a = b" by simp
qed

text \<open>
  Two states of each version that differ in the coordinates and the text fields but not
  in the inputs of the score.
\<close>

theorem scoring_fixed_by_inputs_and_draw_witness:
  "calculateDanger_run fetched10 (Some (Fixed1 False 1000)) \<and>
   calculateDanger_run (fetched10\<lparr>coords' := None, manualLat' := ''9.5'', isLoading' := True\<rparr>)
     (Some (Fixed1 False 1000)) \<and>
   coconutProbability_run exposedAllDay (9 / 10) (Some (Fixed1 False 725)) \<and>
   coconutProbability_run (exposedAllDay\<lparr>coords := Some (Num 1, Num 2), windHistory := [None]\<rparr>) (9 / 10)
     (Some (Fixed1 False 725))"
proof -
  let ?t = "fetched10\<lparr>coords' := None, manualLat' := ''9.5'', isLoading' := True\<rparr>"
  let ?v = "exposedAllDay\<lparr>coords := Some (Num 1, Num 2), windHistory := [None]\<rparr>"
  have s: "calculateDanger_run fetched10 (Some (Fixed1 False 1000))"
    using run [of fetched10] by (simp add: calculateDanger_fetched10)
  have t: "calculateDanger_run ?t (calculateDanger ?t)" by (rule run)
  have u: "coconutProbability_run exposedAllDay (9 / 10) (Some (Fixed1 False 725))"
    using draw [of "9 / 10" exposedAllDay] by (simp add: coconutProbability_exposedAllDay)
  have v: "coconutProbability_run ?v (9 / 10) (coconutProbability (9 / 10) ?v)"
    by (rule draw) simp_all
  from scoring_fixed_by_inputs_and_draw [of fetched10 ?t "Some (Fixed1 False 1000)" "calculateDanger ?t"
      exposedAllDay ?v "9 / 10" "Some (Fixed1 False 725)" "coconutProbability (9 / 10) ?v"] s t u v
  have "Some (Fixed1 False 1000) = calculateDanger ?t"
    "Some (Fixed1 False 725) = coconutProbability (9 / 10) ?v"
    by simp_all
  with s t u v show ?thesis by simp
qed

text \<open>
  C3. For the power-law policy on a snapshot with wind speed 10, no rain, not stormy,
  20 degrees and humidity 50, with 15 trees and 120 minutes, the computed probability is
  the string \<^verbatim>\<open>89.1\<close> and the tier, as \<^verbatim>\<open>dangerLevel\<close> computes it, is \<open>danger\<close>.
\<close>

theorem power_law_example:
  assumes "weatherData st = Some wd" "windSpeed' wd = Num 10" "rain wd = Num 0" "\<not> isStormy wd"
    "temperature wd = Num 20" "humidity wd = Num 50"
    "treeDensity' st = Num 15" "timeExposure' st = Num 120"
  shows "calculateDanger st = Some (Fixed1 False 891) \<and> fixed1_text False 891 = ''89.1'' \<and>
         dangerLevel (calculateDanger st) = ''danger''"
proof -
  define x :: real where "x = 10 + 25 * sqrt 10"
  have lo: "8905 / 100 \<le> x" and hi: "x < 8915 / 100"
    using sqrt10_bounds by (simp_all add: x_def)
  have "calculateDanger st =
      Some (toFixed1 (Num (min 100 ((10 + 10 powr (3 / 2) * (5 / 2)) * multipliers wd * (15 / 15) * (120 / 120)))))"
    using assms by (intro calculateDanger_Num) simp_all
  also have "(10 + 10 powr (3 / 2) * (5 / 2)) * multipliers wd * (15 / 15) * (120 / 120) = x"
    using assms by (simp add: multipliers_def ten_powr_three_halves x_def)
  also have "min 100 x = x" using hi by simp
  also have "toFixed1 (Num x) = Fixed1 False 891"
    using lo hi by (intro toFixed1_half_up) simp_all
  finally have result: "calculateDanger st = Some (Fixed1 False 891)" .
  moreover have "fixed1_text False 891 = ''89.1''" by code_simp
  moreover have "dangerLevel (Some (Fixed1 False 891)) = ''danger''" by (simp add: dangerLevel_def)
  ultimately show ?thesis by simp
qed

text \<open>The theorem on the initial state of the second version with these seven inputs set.\<close>

theorem power_law_example_witness:
  "calculateDanger
     (init2\<lparr>weatherData := Some \<lparr>windSpeed' = Num 10, precipitation = Num 0, rain = Num 0,
                temperature = Num 20, humidity = Num 50, isStormy = False\<rparr>,
            treeDensity' := Num 15, timeExposure' := Num 120\<rparr>) = Some (Fixed1 False 891) \<and>
   fixed1_text False 891 = ''89.1'' \<and>
   dangerLevel (calculateDanger
     (init2\<lparr>weatherData := Some \<lparr>windSpeed' = Num 10, precipitation = Num 0, rain = Num 0,
                temperature = Num 20, humidity = Num 50, isStormy = False\<rparr>,
            treeDensity' := Num 15, timeExposure' := Num 120\<rparr>)) = ''danger''"
  using power_law_example [where wd = "\<lparr>windSpeed' = Num 10, precipitation = Num 0, rain = Num 0,
                temperature = Num 20, humidity = Num 50, isStormy = False\<rparr>"
      and st = "init2\<lparr>weatherData := Some \<lparr>windSpeed' = Num 10, precipitation = Num 0, rain = Num 0,
                temperature = Num 20, humidity = Num 50, isStormy = False\<rparr>,
            treeDensity' := Num 15, timeExposure' := Num 120\<rparr>"]
  by (simp add: init2_def dangerLevel_def)

text \<open>
  C4, as stated, fails. Linear policy, 20 trees, 1440 minutes: at wind 0 with draw 0.9 the
  probability is 72.5, at wind 1 with draw 0 it is 60. With the same draw but -1440
  minutes it is -50 at wind 0 and -60 at wind 1. Power-law policy, 15 trees, -120
  minutes: -10 at wind 0 and -12.5 at wind 1.
\<close>

theorem wind_monotonicity_counterexample:
  "probabilityPercent (coconutProbability (9 / 10) exposedAllDay) = Some (145 / 2) \<and>
   probabilityPercent (coconutProbability 0 (exposedAllDay\<lparr>windSpeed := Some (Num 1)\<rparr>)) = Some 60 \<and>
   probabilityPercent (coconutProbability 0 (exposedAllDay\<lparr>timeExposure := Num (- 1440)\<rparr>)) = Some (- 50) \<and>
   probabilityPercent (coconutProbability 0
      (exposedAllDay\<lparr>windSpeed := Some (Num 1), timeExposure := Num (- 1440)\<rparr>)) = Some (- 60) \<and>
   probabilityPercent (calculateDanger
      (fetched10\<lparr>timeExposure' := Num (- 120),
             weatherData := Some (snapshot (current10\<lparr>cur_wind_speed_10m := Num 0\<rparr>))\<rparr>)) = Some (- 10) \<and>
   probabilityPercent (calculateDanger
      (fetched10\<lparr>timeExposure' := Num (- 120),
             weatherData := Some (snapshot (current10\<lparr>cur_wind_speed_10m := Num 1\<rparr>))\<rparr>)) = Some (- (25 / 2))"
  by (simp add: probabilityPercent_def coconutProbability_def exposedAllDay_def init1_def toFixed1_def
      calculateDanger_def fetched10_fields snapshot_def current10_def climateFactors_def Math_pow_def
      overflow_small)

text \<open>
  C4, amended. Let the wind speed grow from \<open>w1\<close> to \<open>w2\<close> with the tree density and the
  minutes per day non-negative and all other inputs unchanged: for the linear policy
  the same number drawn in both evaluations, for the power-law policy the same rain,
  temperature and humidity and \<^verbatim>\<open>isStormy\<close> not switching from true to false (it follows the
  wind in \<^verbatim>\<open>fetchData\<close>, or is held fixed). Then the probability at \<open>w1\<close> is at most the one at
  \<open>w2\<close> unless one of the two is \<^verbatim>\<open>NaN\<close>. Neither is \<^verbatim>\<open>NaN\<close>, and both are finite numbers in
  that order, when the tree density and the minutes are at most \<open>10^50\<close> and the wind
  speeds are at most \<open>10^50\<close> in magnitude (linear policy, draw of magnitude at most 1) or
  between 0 and \<open>10^50\<close> (power-law policy).
\<close>

theorem probability_monotone_in_wind:
  assumes "wa \<le> wb"
    and "windSpeed st = Some (Num wa)"
    and "treeDensity st = Some (Num d)" "0 \<le> d"
    and "timeExposure st = Num m" "0 \<le> m"
    and "va \<le> vb"
    and "windSpeed' wda = Num va" "windSpeed' wdb = Num vb"
    and "rain wda = rain wdb" "temperature wda = temperature wdb" "humidity wda = humidity wdb"
    and "isStormy wda \<longrightarrow> isStormy wdb"
    and "treeDensity' pst = Num dp" "0 \<le> dp"
    and "timeExposure' pst = Num mp" "0 \<le> mp"
  shows "(\<exists>a b. coconutProbability random st = Some a \<and>
                coconutProbability random (st\<lparr>windSpeed := Some (Num wb)\<rparr>) = Some b \<and>
                (ToNumber a = NaN \<or> ToNumber b = NaN \<or> ToNumber a \<le> ToNumber b)) \<and>
         (\<bar>wa\<bar> \<le> 10 ^ 50 \<and> \<bar>wb\<bar> \<le> 10 ^ 50 \<and> d \<le> 10 ^ 50 \<and> m \<le> 10 ^ 50 \<and> \<bar>random\<bar> \<le> 1 \<longrightarrow>
            (\<exists>p q. probabilityPercent (coconutProbability random st) = Some p \<and>
                probabilityPercent (coconutProbability random (st\<lparr>windSpeed := Some (Num wb)\<rparr>)) = Some q \<and>
                p \<le> q)) \<and>
         (\<exists>a b. calculateDanger (pst\<lparr>weatherData := Some wda\<rparr>) = Some a \<and>
                calculateDanger (pst\<lparr>weatherData := Some wdb\<rparr>) = Some b \<and>
                (ToNumber a = NaN \<or> ToNumber b = NaN \<or> ToNumber a \<le> ToNumber b)) \<and>
         (0 \<le> va \<and> vb \<le> 10 ^ 50 \<and> dp \<le> 10 ^ 50 \<and> mp \<le> 10 ^ 50 \<longrightarrow>
            (\<exists>p q. probabilityPercent (calculateDanger (pst\<lparr>weatherData := Some wda\<rparr>)) = Some p \<and>
                probabilityPercent (calculateDanger (pst\<lparr>weatherData := Some wdb\<rparr>)) = Some q \<and>
                p \<le> q))"
proof (intro conjI impI)
  note linear = coconutProbability_ordered [OF assms(1,2,3,4,5,6), of random]
  note power = calculateDanger_ordered [OF assms(7,8,9,10,11,12,13,14,15,16,17)]
  show "\<exists>a b. coconutProbability random st = Some a \<and>
      coconutProbability random (st\<lparr>windSpeed := Some (Num wb)\<rparr>) = Some b \<and>
      (ToNumber a = NaN \<or> ToNumber b = NaN \<or> ToNumber a \<le> ToNumber b)"
    using linear by (simp only: ordered_def)
  show "\<exists>a b. calculateDanger (pst\<lparr>weatherData := Some wda\<rparr>) = Some a \<and>
      calculateDanger (pst\<lparr>weatherData := Some wdb\<rparr>) = Some b \<and>
      (ToNumber a = NaN \<or> ToNumber b = NaN \<or> ToNumber a \<le> ToNumber b)"
    using power by (simp only: ordered_def)
  {
    assume small: "\<bar>wa\<bar> \<le> 10 ^ 50 \<and> \<bar>wb\<bar> \<le> 10 ^ 50 \<and> d \<le> 10 ^ 50 \<and> m \<le> 10 ^ 50 \<and> \<bar>random\<bar> \<le> 1"
    let ?x = "\<lambda>w. min 100 ((10 + w * 2 + random * 5) * 5 * (d / 20) * (m / 1440))"
    have p: "probabilityPercent (coconutProbability random st) = Some (tenths (?x wa))"
      using assms small by (intro coconutProbability_bounded) simp_all
    have q: "probabilityPercent (coconutProbability random (st\<lparr>windSpeed := Some (Num wb)\<rparr>))
        = Some (tenths (?x wb))"
      using assms small by (intro coconutProbability_bounded) simp_all
    from linear obtain a b where ab: "coconutProbability random st = Some a"
      "coconutProbability random (st\<lparr>windSpeed := Some (Num wb)\<rparr>) = Some b"
      "ordered (ToNumber a) (ToNumber b)" by blast
    from ab(3) p q have "tenths (?x wa) \<le> tenths (?x wb)"
      unfolding ab(1,2) by (rule ordered_percent)
    with p q show "\<exists>p q. probabilityPercent (coconutProbability random st) = Some p \<and>
        probabilityPercent (coconutProbability random (st\<lparr>windSpeed := Some (Num wb)\<rparr>)) = Some q \<and> p \<le> q"
      by blast
  }
  {
    assume small: "0 \<le> va \<and> vb \<le> 10 ^ 50 \<and> dp \<le> 10 ^ 50 \<and> mp \<le> 10 ^ 50"
    let ?y = "\<lambda>w wd. min 100 ((10 + w powr (3 / 2) * (5 / 2)) * multipliers wd * (dp / 15) * (mp / 120))"
    have p: "probabilityPercent (calculateDanger (pst\<lparr>weatherData := Some wda\<rparr>)) = Some (tenths (?y va wda))"
      using assms small by (intro calculateDanger_bounded) simp_all
    have q: "probabilityPercent (calculateDanger (pst\<lparr>weatherData := Some wdb\<rparr>)) = Some (tenths (?y vb wdb))"
      using assms small by (intro calculateDanger_bounded) simp_all
    from power obtain a b where ab: "calculateDanger (pst\<lparr>weatherData := Some wda\<rparr>) = Some a"
      "calculateDanger (pst\<lparr>weatherData := Some wdb\<rparr>) = Some b"
      "ordered (ToNumber a) (ToNumber b)" by blast
    from ab(3) p q have "tenths (?y va wda) \<le> tenths (?y vb wdb)"
      unfolding ab(1,2) by (rule ordered_percent)
    with p q show "\<exists>p q. probabilityPercent (calculateDanger (pst\<lparr>weatherData := Some wda\<rparr>)) = Some p \<and>
        probabilityPercent (calculateDanger (pst\<lparr>weatherData := Some wdb\<rparr>)) = Some q \<and> p \<le> q"
      by blast
  }
qed

text \<open>
  The theorem for the wind growing from 3 to 5, the snapshots being those that
  \<^verbatim>\<open>fetchData\<close> builds.
\<close>

theorem probability_monotone_in_wind_witness:
  "(\<exists>p q. probabilityPercent (coconutProbability (1 / 2) fetched3) = Some p \<and>
          probabilityPercent (coconutProbability (1 / 2) (fetched3\<lparr>windSpeed := Some (Num 5)\<rparr>)) = Some q \<and>
          p \<le> q) \<and>
   (\<exists>p q. probabilityPercent (calculateDanger
              (fetched10\<lparr>weatherData := Some (snapshot (current10\<lparr>cur_wind_speed_10m := Num 3\<rparr>))\<rparr>)) = Some p \<and>
          probabilityPercent (calculateDanger
              (fetched10\<lparr>weatherData := Some (snapshot (current10\<lparr>cur_wind_speed_10m := Num 5\<rparr>))\<rparr>)) = Some q \<and>
          p \<le> q)"
  using probability_monotone_in_wind [where wa = 3 and wb = 5 and st = fetched3 and d = 12 and m = 30
      and pst = fetched10 and dp = 15 and mp = 120 and random = "1 / 2" and va = 3 and vb = 5
      and wda = "snapshot (current10\<lparr>cur_wind_speed_10m := Num 3\<rparr>)"
      and wdb = "snapshot (current10\<lparr>cur_wind_speed_10m := Num 5\<rparr>)"]
  by (simp add: fetched3_fields fetched10_fields snapshot_def)

text \<open>
  C5. The tier is a total function of the probability alone: for a probability string
  denoting the finite number \<open>v\<close> the tier is \<open>safe\<close> when \<open>v \<le> 40\<close>, \<open>warning\<close> when
  \<open>40 < v \<le> 70\<close> and \<open>danger\<close> when \<open>70 < v\<close>; it is one of the three for every string.
\<close>

theorem dangerLevel_tiers:
  "dangerLevel (Some p) \<in> {''safe'', ''warning'', ''danger''} \<and>
   (ToNumber p = Num v \<longrightarrow>
      (v \<le> 40 \<longrightarrow> dangerLevel (Some p) = ''safe'') \<and>
      (40 < v \<and> v \<le> 70 \<longrightarrow> dangerLevel (Some p) = ''warning'') \<and>
      (70 < v \<longrightarrow> dangerLevel (Some p) = ''danger''))"
  by (auto simp: dangerLevel_def)

text \<open>The tiers of \<^verbatim>\<open>40.0\<close>, \<^verbatim>\<open>40.1\<close>, \<^verbatim>\<open>70.0\<close> and \<^verbatim>\<open>70.1\<close>.\<close>

theorem dangerLevel_tiers_witness:
  "dangerLevel (Some (Fixed1 False 400)) = ''safe'' \<and>
   dangerLevel (Some (Fixed1 False 401)) = ''warning'' \<and>
   dangerLevel (Some (Fixed1 False 700)) = ''warning'' \<and>
   dangerLevel (Some (Fixed1 False 701)) = ''danger''"
  using dangerLevel_tiers [of "Fixed1 False 400" 40]
        dangerLevel_tiers [of "Fixed1 False 401" "401 / 10"]
        dangerLevel_tiers [of "Fixed1 False 700" 70]
        dangerLevel_tiers [of "Fixed1 False 701" "701 / 10"]
  by simp

text \<open>
  C6 does not hold in the first version, which never resets the wind speed. After a
  fetch that found wind 3, a second fetch whose weather request throws leaves the wind
  speed at 3 and the probability (draw 0) at \<^verbatim>\<open>0.4\<close>; with 0 minutes typed in and an
  answer without current weather the probability is the number \<^verbatim>\<open>0.0\<close>. The second
  version resets the weather data first (\<open>calculateDanger_failed_weather\<close>).
\<close>

theorem stale_wind_after_failed_lookup:
  "windSpeed (fetchData1 (Num 8) (Num 77) Rejected (Rejected :: unit tree_json response) fetched3)
     = Some (Num 3) \<and>
   coconutProbability 0 (fetchData1 (Num 8) (Num 77) Rejected (Rejected :: unit tree_json response) fetched3)
     = Some (Fixed1 False 4) \<and>
   coconutProbability 0
     (fetchData1 (Num 8) (Num 77) (Json \<lparr>current_weather = None, hourly = None\<rparr>)
        (Json \<lparr>elements = Some [()]\<rparr>) (onChange_minutes ''0'' fetched3))
     = Some (Fixed1 False 0)"
proof -
  have zero: "parseInt ''0'' = Num 0"
    by (simp add: parseInt_def isWhiteSpace_def isDigit_def radixValue_def digitValue_def overflow_small)
  show ?thesis
    by (simp add: fetchData1_def fetchData1_try_def fetched3_fields coconutProbability_def toFixed1_def
        onChange_minutes_def zero number_or_def truthy_def elements_length_or_5_def overflow_small)
qed

text \<open>
  C7. When the tree lookup throws, or answers without a feature list or with an empty
  one, the tree density is 5 when \<^verbatim>\<open>fetchData\<close> ends, whatever the weather lookup did. In
  the second version the lookup is made only when the manual tree count is off.
\<close>

theorem tree_lookup_failure_gives_5:
  assumes "tree = Rejected \<or> tree = Json \<lparr>elements = None\<rparr> \<or> tree = Json \<lparr>elements = Some []\<rparr>"
  shows "treeDensity (fetchData1 lat lon weather tree st) = Some (Num 5) \<and>
         (\<not> useManualTrees pst \<longrightarrow> treeDensity' (fetchData2 lat lon pweather tree pst) = Num 5)"
  using assms
  by (auto simp: fetchData1_def fetchData1_try_def fetchData2_def fetchData2_try_def Let_def
      elements_length_or_5_def number_or_def truthy_def
      split: response.splits option.splits sum.splits)

text \<open>An empty list in the first version, a thrown request in the second.\<close>

theorem tree_lookup_failure_gives_5_witness:
  "treeDensity (fetchData1 (Num 10) (Num 76) (Json \<lparr>current_weather = Some (Num 3), hourly = None\<rparr>)
       (Json \<lparr>elements = Some ([] :: unit list)\<rparr>) fetched3) = Some (Num 5) \<and>
   treeDensity' (fetchData2 (Num 10) (Num 76) (Json \<lparr>current = Some current10\<rparr>)
       (Rejected :: unit tree_json response) fetched10) = Num 5 \<and>
   treeDensity fetched3 = Some (Num 12) \<and> treeDensity' fetched10 = Num 15 \<and>
   \<not> useManualTrees fetched10"
  using tree_lookup_failure_gives_5 [of "Json \<lparr>elements = Some ([] :: unit list)\<rparr>"
      "Num 10" "Num 76" "Json \<lparr>current_weather = Some (Num 3), hourly = None\<rparr>" fetched3]
    tree_lookup_failure_gives_5 [of "Rejected :: unit tree_json response"
      "Num 10" "Num 76" _ _ fetched10 "Json \<lparr>current = Some current10\<rparr>"]
  by (simp add: fetched3_fields fetched10_fields)

text \<open>
  C8, as stated, fails: the latitude text \<^verbatim>\<open>Infinity\<close> does not parse to a finite number,
  yet the submission goes through, and the coordinate and the tree density change.
\<close>

theorem infinity_submission_counterexample:
  "\<not> isFinite (parseFloat (manualLat typedInfinity)) \<and>
   coords typedInfinity = Some (Num 10, Num 76) \<and> treeDensity typedInfinity = Some (Num 12) \<and>
   coords (handleManualSubmit1 (Json \<lparr>current_weather = None, hourly = None\<rparr>)
             (Rejected :: unit tree_json response) typedInfinity) = Some (PosInfinity, Num 0) \<and>
   treeDensity (handleManualSubmit1 (Json \<lparr>current_weather = None, hourly = None\<rparr>)
             (Rejected :: unit tree_json response) typedInfinity) = Some (Num 5)"
proof -
  have lat: "parseFloat ''Infinity'' = PosInfinity"
    by (simp add: parseFloat_def isWhiteSpace_def)
  have lon: "parseFloat ''0'' = Num 0"
    by (simp add: parseFloat_def isWhiteSpace_def isDigit_def radixValue_def digitValue_def exponentPart_def
        overflow_small)
  show ?thesis
    by (simp add: typedInfinity_def fetched3_fields handleManualSubmit1_def lat lon isNaN_def isFinite_def
        fetchData1_def fetchData1_try_def)
qed

text \<open>
  C8, amended. A manual coordinate submission whose latitude or longitude text parses to
  \<^verbatim>\<open>NaN\<close> is ignored and leaves the whole state unchanged, in both versions.
\<close>

theorem manual_submit_NaN_ignored:
  "(isNaN (parseFloat (manualLat st)) \<or> isNaN (parseFloat (manualLon st))
      \<longrightarrow> handleManualSubmit1 weather tree st = st) \<and>
   (isNaN (parseFloat (manualLat' pst)) \<or> isNaN (parseFloat (manualLon' pst))
      \<longrightarrow> handleManualSubmit2 pweather ptree pst = pst)"
  by (auto simp: handleManualSubmit1_def handleManualSubmit2_def Let_def)

text \<open>A latitude of letters in the first version, an empty longitude in the second.\<close>

theorem manual_submit_NaN_ignored_witness:
  "isNaN (parseFloat (manualLat (fetched3\<lparr>manualLat := ''abc'', manualLon := ''76.5''\<rparr>))) \<and>
   handleManualSubmit1 (Json \<lparr>current_weather = Some (Num 9), hourly = None\<rparr>)
      (Json \<lparr>elements = Some [()]\<rparr>) (fetched3\<lparr>manualLat := ''abc'', manualLon := ''76.5''\<rparr>)
     = fetched3\<lparr>manualLat := ''abc'', manualLon := ''76.5''\<rparr> \<and>
   isNaN (parseFloat (manualLon' (fetched10\<lparr>manualLat' := ''10'', manualLon' := []\<rparr>))) \<and>
   handleManualSubmit2 (Json \<lparr>current = Some current10\<rparr>) (Json \<lparr>elements = Some [()]\<rparr>)
      (fetched10\<lparr>manualLat' := ''10'', manualLon' := []\<rparr>)
     = fetched10\<lparr>manualLat' := ''10'', manualLon' := []\<rparr>"
proof -
  have a: "parseFloat ''abc'' = NaN"
    by (simp add: parseFloat_def isWhiteSpace_def isDigit_def)
  have b: "parseFloat [] = NaN"
    by (simp add: parseFloat_def isWhiteSpace_def isDigit_def)
  from manual_submit_NaN_ignored [of "fetched3\<lparr>manualLat := ''abc'', manualLon := ''76.5''\<rparr>"
      "Json \<lparr>current_weather = Some (Num 9), hourly = None\<rparr>" "Json \<lparr>elements = Some [()]\<rparr>"
      "fetched10\<lparr>manualLat' := ''10'', manualLon' := []\<rparr>"
      "Json \<lparr>current = Some current10\<rparr>" "Json \<lparr>elements = Some [()]\<rparr>"]
  show ?thesis by (simp add: a b isNaN_def)
qed

text \<open>
  C9. A call of \<^verbatim>\<open>fetchData\<close> either leaves the wind history as it was or leaves at most
  five entries in it. When the answer has hourly data, the history is the midday
  samples without their first \<open>n - 5\<close> entries (none when \<open>n \<le> 5\<close>), in the order of the
  answer: it has \<open>min 5 n\<close> entries, and the samples are the dropped oldest ones followed
  by the history.
\<close>

theorem windHistory_last_five_midday:
  "(windHistory (fetchData1 la lo weather tree st0) = windHistory st0 \<or>
      length (windHistory (fetchData1 la lo weather tree st0)) \<le> 5) \<and>
   windHistory (fetchData1 lat lon
       (Json \<lparr>current_weather = cw, hourly = Some \<lparr>time = Some hours, wind_speed_10m = Some speeds\<rparr>\<rparr>)
       tree st)
     = drop (length (midday_samples hours speeds) - 5) (midday_samples hours speeds) \<and>
   length (drop (length (midday_samples hours speeds) - 5) (midday_samples hours speeds))
     = min 5 (length (midday_samples hours speeds)) \<and>
   midday_samples hours speeds
     = take (length (midday_samples hours speeds) - 5) (midday_samples hours speeds)
       @ drop (length (midday_samples hours speeds) - 5) (midday_samples hours speeds)"
proof (intro conjI)
  show "windHistory (fetchData1 la lo weather tree st0) = windHistory st0 \<or>
      length (windHistory (fetchData1 la lo weather tree st0)) \<le> 5"
    using fetchData1_windHistory [of la lo weather tree st0]
    by (auto simp: slice_last5_def)
  show "windHistory (fetchData1 lat lon
       (Json \<lparr>current_weather = cw, hourly = Some \<lparr>time = Some hours, wind_speed_10m = Some speeds\<rparr>\<rparr>)
       tree st)
     = drop (length (midday_samples hours speeds) - 5) (midday_samples hours speeds)"
    by (cases tree; cases cw)
       (simp_all add: fetchData1_def fetchData1_try_def dailySpeeds_loop_midday slice_last5_def Let_def)
  show "length (drop (length (midday_samples hours speeds) - 5) (midday_samples hours speeds))
     = min 5 (length (midday_samples hours speeds))"
    by simp
  show "midday_samples hours speeds
     = take (length (midday_samples hours speeds) - 5) (midday_samples hours speeds)
       @ drop (length (midday_samples hours speeds) - 5) (midday_samples hours speeds)"
    by simp
qed

text \<open>
  C10. After a first fetch (wind 0, no tree found, so 5 trees) the user types \<^verbatim>\<open>-10\<close>
  into the minutes field: \<^verbatim>\<open>parseInt\<close> yields -10, which is stored, and whatever number
  is drawn the probability is the string \<^verbatim>\<open>-0.1\<close>, below 0: the formula has an upper
  bound only.
\<close>

theorem negative_minutes_negative_probability:
  assumes "0 \<le> random" "random < 1"
  shows "parseInt ''-10'' = Num (- 10) \<and>
         timeExposure (onChange_minutes ''-10'' fetched0) = Num (- 10) \<and>
         coconutProbability random (onChange_minutes ''-10'' fetched0) = Some (Fixed1 True 1) \<and>
         fixed1_text True 1 = ''-0.1'' \<and>
         probabilityPercent (coconutProbability random (onChange_minutes ''-10'' fetched0)) = Some (- (1 / 10)) \<and>
         - (1 / 10) < (0 :: real)"
proof -
  have parsed: "parseInt ''-10'' = Num (- 10)"
    by (simp add: parseInt_def isWhiteSpace_def isDigit_def radixValue_def digitValue_def overflow_small)
  then have minutes: "timeExposure (onChange_minutes ''-10'' fetched0) = Num (- 10)"
    by (simp add: onChange_minutes_def number_or_def truthy_def)
  define x where "x = (10 + 0 * 2 + random * 5) * 5 * (5 / 20) * (- 10 / 1440)"
  have "coconutProbability random (onChange_minutes ''-10'' fetched0) = Some (toFixed1 (Num (min 100 x)))"
    unfolding x_def
  proof (rule coconutProbability_Num)
    show "windSpeed (onChange_minutes ''-10'' fetched0) = Some (Num 0)"
      by (simp add: onChange_minutes_def fetched0_fields)
    show "treeDensity (onChange_minutes ''-10'' fetched0) = Some (Num 5)"
      by (simp add: onChange_minutes_def fetched0_fields)
    show "timeExposure (onChange_minutes ''-10'' fetched0) = Num (- 10)" by (rule minutes)
    show "\<bar>0 :: real\<bar> \<le> 10 ^ 50" "\<bar>5 :: real\<bar> \<le> 10 ^ 50" "\<bar>- 10 :: real\<bar> \<le> 10 ^ 50"
      by simp_all
    show "\<bar>random\<bar> \<le> 1" using assms by simp
  qed
  moreover have "x = - ((500 + 250 * random) / 5760)" by (simp add: x_def)
  with assms have lo: "- (14 / 100) \<le> x" and hi: "x \<le> - (8 / 100)" by simp_all
  moreover from hi have "min 100 x = x" by simp
  moreover have "toFixed1 (Num x) = Fixed1 True 1"
    using lo hi by (intro toFixed1_half_up_neg) simp_all
  ultimately have prob: "coconutProbability random (onChange_minutes ''-10'' fetched0) = Some (Fixed1 True 1)"
    by simp
  have shown: "fixed1_text True 1 = ''-0.1''" by code_simp
  from parsed minutes prob shown show ?thesis by (simp add: probabilityPercent_def)
qed

text \<open>The theorem for the draw 0.5.\<close>

theorem negative_minutes_negative_probability_witness:
  "coconutProbability (1 / 2) (onChange_minutes ''-10'' fetched0) = Some (Fixed1 True 1) \<and>
   probabilityPercent (coconutProbability (1 / 2) (onChange_minutes ''-10'' fetched0)) = Some (- (1 / 10))"
  using negative_minutes_negative_probability [of "1 / 2"] by (simp add: probabilityPercent_def)

end
